theory Spec2Isabelle
  imports Complex_Main
begin

section \<open>Python values and built-ins used by the backend\<close>

text \<open>
  The backend (\<^verbatim>\<open>src/backend/nodes.py\<close>, \<^verbatim>\<open>src/backend/main.py\<close>) handles values that
  come out of \<^verbatim>\<open>json.loads\<close>: \<^verbatim>\<open>None\<close>, booleans, unbounded integers, floats, strings,
  lists and dictionaries. A float is never computed with here: the code only tests its
  truth value and hands it to \<^verbatim>\<open>int()\<close>, so a float is its exact rational value or one of
  the three special values. A dictionary is an association list in insertion order.
  A string is a list of 8-bit characters, read as the code points 0 to 255: on these,
  \<open>str_lower\<close>, \<open>str_strip\<close> and \<open>py_int\<close> below are Python's \<^verbatim>\<open>lower()\<close>,
  \<^verbatim>\<open>strip()\<close> and \<^verbatim>\<open>int()\<close>. \<open>str_title\<close> is Python's \<^verbatim>\<open>title()\<close> on ASCII text
  only (the title case of some letters above 127 lies outside the 8-bit range), so the
  general statements that depend on it assume an ASCII path (\<open>ascii_text\<close>).
\<close>

datatype pyfloat = Finite rat | PosInf | NegInf | NaN

datatype pyval =
    VNone
  | VBool bool
  | VInt int
  | VFloat pyfloat
  | VStr string
  | VList "pyval list"
  | VDict "(string \<times> pyval) list"

datatype error =
    AttributeError
  | KeyError
  | TypeError
  | ValueError
  | OverflowError
  | JSONDecodeError
  | RecursionError
  | ServiceError

text \<open>Truth value of a Python object, as tested by \<^verbatim>\<open>if x\<close> and \<^verbatim>\<open>not x\<close>.\<close>

fun truthy :: "pyval \<Rightarrow> bool" where
  "truthy VNone = False"
| "truthy (VBool b) = b"
| "truthy (VInt n) = (n \<noteq> 0)"
| "truthy (VFloat f) = (f \<noteq> Finite 0)"
| "truthy (VStr s) = (s \<noteq> [])"
| "truthy (VList xs) = (xs \<noteq> [])"
| "truthy (VDict kvs) = (kvs \<noteq> [])"

fun is_dict :: "pyval \<Rightarrow> bool" where
  "is_dict (VDict kvs) = True"
| "is_dict v = False"

subsection \<open>Dictionaries\<close>

text \<open>\<^verbatim>\<open>d.get(k)\<close>, \<^verbatim>\<open>d.get(k, default)\<close>, \<^verbatim>\<open>k in d\<close>, \<^verbatim>\<open>d[k] = v\<close>, \<^verbatim>\<open>del d[k]\<close> and
  \<^verbatim>\<open>d.update(other)\<close>. Assigning to a key that is present keeps its position; a new
  key goes to the end.\<close>

definition dict_get :: "(string \<times> pyval) list \<Rightarrow> string \<Rightarrow> pyval \<Rightarrow> pyval" where
  "dict_get d k dflt = (case map_of d k of None \<Rightarrow> dflt | Some v \<Rightarrow> v)"

definition dict_has :: "(string \<times> pyval) list \<Rightarrow> string \<Rightarrow> bool" where
  "dict_has d k = (map_of d k \<noteq> None)"

fun dict_set :: "string \<Rightarrow> pyval \<Rightarrow> (string \<times> pyval) list \<Rightarrow> (string \<times> pyval) list" where
  "dict_set k v [] = [(k, v)]"
| "dict_set k v (p # ps) = (if fst p = k then (k, v) # ps else p # dict_set k v ps)"

definition dict_del :: "string \<Rightarrow> (string \<times> pyval) list \<Rightarrow> (string \<times> pyval) list" where
  "dict_del k d = filter (\<lambda>p. fst p \<noteq> k) d"

definition dict_update ::
  "(string \<times> pyval) list \<Rightarrow> (string \<times> pyval) list \<Rightarrow> (string \<times> pyval) list" where
  "dict_update d other = fold (\<lambda>p acc. dict_set (fst p) (snd p) acc) other d"

subsection \<open>Strings\<close>

definition upper_letters :: string where
  "upper_letters = ''ABCDEFGHIJKLMNOPQRSTUVWXYZ''"

definition lower_letters :: string where
  "lower_letters = ''abcdefghijklmnopqrstuvwxyz''"

text \<open>The upper-case letters of the code points 128 to 255 (0xC0-0xDE without the
  multiplication sign 0xD7) and their lower-case forms, 32 places further.\<close>

definition upper_latin1 :: string where
  "upper_latin1 =
     [CHR 0xC0, CHR 0xC1, CHR 0xC2, CHR 0xC3, CHR 0xC4, CHR 0xC5, CHR 0xC6, CHR 0xC7,
      CHR 0xC8, CHR 0xC9, CHR 0xCA, CHR 0xCB, CHR 0xCC, CHR 0xCD, CHR 0xCE, CHR 0xCF,
      CHR 0xD0, CHR 0xD1, CHR 0xD2, CHR 0xD3, CHR 0xD4, CHR 0xD5, CHR 0xD6,
      CHR 0xD8, CHR 0xD9, CHR 0xDA, CHR 0xDB, CHR 0xDC, CHR 0xDD, CHR 0xDE]"

definition lower_latin1 :: string where
  "lower_latin1 =
     [CHR 0xE0, CHR 0xE1, CHR 0xE2, CHR 0xE3, CHR 0xE4, CHR 0xE5, CHR 0xE6, CHR 0xE7,
      CHR 0xE8, CHR 0xE9, CHR 0xEA, CHR 0xEB, CHR 0xEC, CHR 0xED, CHR 0xEE, CHR 0xEF,
      CHR 0xF0, CHR 0xF1, CHR 0xF2, CHR 0xF3, CHR 0xF4, CHR 0xF5, CHR 0xF6,
      CHR 0xF8, CHR 0xF9, CHR 0xFA, CHR 0xFB, CHR 0xFC, CHR 0xFD, CHR 0xFE]"

text \<open>The lower case of an ASCII letter, which \<open>str_title\<close> uses, and the lower case
  of any character, as \<^verbatim>\<open>lower()\<close> takes it (\<open>digit7\<close> is the top bit: the
  character is above 127).\<close>

definition lower_ascii :: "char \<Rightarrow> char" where
  "lower_ascii c = (case map_of (zip upper_letters lower_letters) c of None \<Rightarrow> c | Some d \<Rightarrow> d)"

definition lower_char :: "char \<Rightarrow> char" where
  "lower_char c =
     (if digit7 c
      then (case map_of (zip upper_latin1 lower_latin1) c of None \<Rightarrow> c | Some d \<Rightarrow> d)
      else lower_ascii c)"

definition upper_char :: "char \<Rightarrow> char" where
  "upper_char c = (case map_of (zip lower_letters upper_letters) c of None \<Rightarrow> c | Some d \<Rightarrow> d)"

definition is_cased :: "char \<Rightarrow> bool" where
  "is_cased c = (c \<in> set upper_letters \<or> c \<in> set lower_letters)"

text \<open>\<^verbatim>\<open>s.lower()\<close>\<close>

definition str_lower :: "string \<Rightarrow> string" where
  "str_lower s = map lower_char s"

text \<open>\<^verbatim>\<open>s.title()\<close> on ASCII text: a cased character is upper-cased when the character
  before it is not cased, and lower-cased otherwise.\<close>

fun title_from :: "bool \<Rightarrow> string \<Rightarrow> string" where
  "title_from prev [] = []"
| "title_from prev (c # cs) =
     (if prev then lower_ascii c else upper_char c) # title_from (is_cased c) cs"

text \<open>Text of ASCII characters (code points below 128).\<close>

definition ascii_text :: "string \<Rightarrow> bool" where
  "ascii_text s = list_all (\<lambda>c. \<not> digit7 c) s"

definition str_title :: "string \<Rightarrow> string" where
  "str_title s = title_from False s"

text \<open>\<^verbatim>\<open>s.replace('_', ' ')\<close>\<close>

definition replace_underscores :: "string \<Rightarrow> string" where
  "replace_underscores s = map (\<lambda>c. if c = CHR ''_'' then CHR '' '' else c) s"

text \<open>Python's white space (\<^verbatim>\<open>str.isspace\<close>) among the code points 0 to 255: tab, line
  feed, vertical tab, form feed, carriage return, the four separators 0x1C-0x1F, the
  blank, next line 0x85 and the no-break space 0xA0.\<close>

definition is_space :: "char \<Rightarrow> bool" where
  "is_space c = (c \<in> set
     [CHR 0x09, CHR 0x0A, CHR 0x0B, CHR 0x0C, CHR 0x0D,
      CHR 0x1C, CHR 0x1D, CHR 0x1E, CHR 0x1F, CHR 0x20, CHR 0x85, CHR 0xA0])"

text \<open>\<^verbatim>\<open>s.strip()\<close>\<close>

definition str_strip :: "string \<Rightarrow> string" where
  "str_strip s = rev (dropWhile is_space (rev (dropWhile is_space s)))"

text \<open>\<^verbatim>\<open>s.split(sep)\<close> for a one-character separator: never the empty list.\<close>

fun str_split :: "char \<Rightarrow> string \<Rightarrow> string list" where
  "str_split sep [] = [[]]"
| "str_split sep (c # cs) =
     (if c = sep then [] # str_split sep cs
      else (case str_split sep cs of
              [] \<Rightarrow> [[c]]
            | p # ps \<Rightarrow> (c # p) # ps))"

text \<open>\<^verbatim>\<open>s.find(c)\<close> and \<^verbatim>\<open>s.rfind(c)\<close>: the first and the last index of a character,
  or -1.\<close>

fun str_find :: "char \<Rightarrow> string \<Rightarrow> int" where
  "str_find c [] = -1"
| "str_find c (d # ds) =
     (if d = c then 0
      else (let r = str_find c ds in if r = -1 then -1 else r + 1))"

definition str_rfind :: "char \<Rightarrow> string \<Rightarrow> int" where
  "str_rfind c s =
     (let r = str_find c (rev s) in if r = -1 then -1 else int (length s) - 1 - r)"

text \<open>The slice \<^verbatim>\<open>s[i:j]\<close> for indices that are not negative.\<close>

definition str_slice :: "string \<Rightarrow> int \<Rightarrow> int \<Rightarrow> string" where
  "str_slice s i j = take (nat j - nat i) (drop (nat i) s)"

subsection \<open>Conversion to an integer\<close>

text \<open>\<^verbatim>\<open>int(x)\<close>. On a string: white space around, an optional sign, then decimal digits
  in groups separated by single underscores, at most 4300 digits (CPython's default
  limit). The white space that \<^verbatim>\<open>int\<close> skips is narrower than that of \<^verbatim>\<open>strip()\<close>: the
  separators 0x1C-0x1F are not skipped. On a float: truncation towards zero, with
  ValueError for NaN and OverflowError for an infinity.\<close>

definition is_int_space :: "char \<Rightarrow> bool" where
  "is_int_space c = (c \<in> set
     [CHR 0x09, CHR 0x0A, CHR 0x0B, CHR 0x0C, CHR 0x0D, CHR 0x20, CHR 0x85, CHR 0xA0])"

definition int_strip :: "string \<Rightarrow> string" where
  "int_strip s = rev (dropWhile is_int_space (rev (dropWhile is_int_space s)))"

definition max_str_digits :: nat where
  "max_str_digits = 4300"

definition digit_val :: "char \<Rightarrow> nat option" where
  "digit_val c = map_of (zip ''0123456789'' [0, 1, 2, 3, 4, 5, 6, 7, 8, 9]) c"

fun parse_digits :: "nat \<Rightarrow> bool \<Rightarrow> string \<Rightarrow> nat option" where
  "parse_digits acc prev [] = (if prev then Some acc else None)"
| "parse_digits acc prev (c # cs) =
     (if c = CHR ''_'' then
        (if prev \<and> cs \<noteq> [] then parse_digits acc False cs else None)
      else (case digit_val c of
              None \<Rightarrow> None
            | Some d \<Rightarrow> parse_digits (10 * acc + d) True cs))"

definition parse_int :: "string \<Rightarrow> int option" where
  "parse_int s =
     (let body = int_strip s in
      if length (filter (\<lambda>c. digit_val c \<noteq> None) body) > max_str_digits then None
      else
        (case body of
           [] \<Rightarrow> None
         | c # cs \<Rightarrow>
             if c = CHR ''-'' then map_option (\<lambda>n. - int n) (parse_digits 0 False cs)
             else if c = CHR ''+'' then map_option int (parse_digits 0 False cs)
             else map_option int (parse_digits 0 False (c # cs))))"

definition truncate_rat :: "rat \<Rightarrow> int" where
  "truncate_rat r = (if 0 \<le> r then \<lfloor>r\<rfloor> else \<lceil>r\<rceil>)"

fun py_int :: "pyval \<Rightarrow> error + int" where
  "py_int VNone = Inl TypeError"
| "py_int (VBool b) = Inr (if b then 1 else 0)"
| "py_int (VInt n) = Inr n"
| "py_int (VFloat (Finite r)) = Inr (truncate_rat r)"
| "py_int (VFloat NaN) = Inl ValueError"
| "py_int (VFloat PosInf) = Inl OverflowError"
| "py_int (VFloat NegInf) = Inl OverflowError"
| "py_int (VStr s) = (case parse_int s of None \<Rightarrow> Inl ValueError | Some n \<Rightarrow> Inr n)"
| "py_int (VList xs) = Inl TypeError"
| "py_int (VDict kvs) = Inl TypeError"

section \<open>The document model\<close>

text \<open>
  \<^verbatim>\<open>PlanSection\<close> and \<^verbatim>\<open>AccountPlan\<close> are the classes of \<^verbatim>\<open>models.py\<close>, which the code
  imports: a section is a title and a content of any shape; a plan has the fields that
  \<^verbatim>\<open>new_account_plan\<close> (main.py) fills, and its \<^verbatim>\<open>history\<close>. A history entry is what
  \<^verbatim>\<open>plan.model_dump()\<close> gives once its \<^verbatim>\<open>"history"\<close> key is deleted: the plan's other
  fields.
\<close>

record PlanSection =
  title :: string
  content :: pyval

record plan_fields =
  plan_id :: string
  userId :: string
  company :: string
  goal :: string
  plan_title :: pyval
  createdAt :: string
  updatedAt :: string
  version :: int
  sections :: "PlanSection list"

record AccountPlan = plan_fields +
  history :: "plan_fields list"

text \<open>\<^verbatim>\<open>snapshot = plan.model_dump(); del snapshot["history"]\<close>\<close>

definition snapshot_of :: "AccountPlan \<Rightarrow> plan_fields" where
  "snapshot_of plan =
     \<lparr> plan_id = plan_id plan, userId = userId plan, company = company plan,
       goal = goal plan, plan_title = plan_title plan, createdAt = createdAt plan,
       updatedAt = updatedAt plan, version = version plan, sections = sections plan \<rparr>"

section \<open>The document merge engine: \<^verbatim>\<open>apply_plan_update\<close> (nodes.py)\<close>

subsection \<open>One update command\<close>

text \<open>Lines 207-212: a content that the model wrapped in a section-like object is
  unwrapped.\<close>

definition unwrap_content :: "pyval \<Rightarrow> pyval" where
  "unwrap_content c =
     (case c of
        VDict d \<Rightarrow>
          if dict_has d ''content'' \<and> (dict_has d ''title'' \<or> length d = 1)
          then dict_get d ''content'' VNone else c
      | _ \<Rightarrow> c)"

text \<open>Lines 228-242: the index of the first section whose title matches, \<open>None\<close> for the
  source's -1.\<close>

definition title_matches :: "string \<Rightarrow> string \<Rightarrow> PlanSection \<Rightarrow> bool" where
  "title_matches raw_title normalized_title s =
     (let current_title = str_lower (str_strip (title s));
          current_normalized = replace_underscores current_title
      in current_normalized = str_lower normalized_title \<or> current_title = str_lower raw_title)"

fun find_first :: "('a \<Rightarrow> bool) \<Rightarrow> 'a list \<Rightarrow> nat option" where
  "find_first P [] = None"
| "find_first P (x # xs) = (if P x then Some 0 else map_option Suc (find_first P xs))"

definition find_existing :: "string \<Rightarrow> string \<Rightarrow> PlanSection list \<Rightarrow> nat option" where
  "find_existing raw_title normalized_title secs =
     find_first (title_matches raw_title normalized_title) secs"

text \<open>Lines 246-255: the target key named by the second (or third) segment of the path;
  \<open>None\<close> is the source's \<^verbatim>\<open>None\<close>. A key counts as given when it is a non-empty
  string (\<^verbatim>\<open>if target_key\<close>).\<close>

definition target_key_of :: "string list \<Rightarrow> string option" where
  "target_key_of parts =
     (if length parts > 1 then
        (let potential_key = str_strip (parts ! 1);
             target_key =
               (if str_lower potential_key = ''content'' \<and> length parts > 2
                then str_strip (parts ! 2) else potential_key)
         in if target_key \<noteq> [] then Some (str_title (replace_underscores target_key))
            else Some target_key)
      else None)"

fun key_given :: "string option \<Rightarrow> bool" where
  "key_given None = False"
| "key_given (Some k) = (k \<noteq> [])"

text \<open>Lines 262-270: a target key that is not a key of the existing mapping is replaced
  by the first key of the mapping that equals it up to case, underscores and white
  space.\<close>

definition loose_key :: "string \<Rightarrow> string" where
  "loose_key k = str_lower (str_strip (replace_underscores k))"

definition resolve_target_key :: "string option \<Rightarrow> pyval \<Rightarrow> string option" where
  "resolve_target_key target_key existing_content =
     (case (target_key, existing_content) of
        (Some tk, VDict d) \<Rightarrow>
          if tk \<noteq> [] \<and> \<not> dict_has d tk then
            (case find (\<lambda>k. loose_key k = loose_key tk) (map fst d) of
               Some found_key \<Rightarrow> if found_key \<noteq> [] then Some found_key else target_key
             | None \<Rightarrow> target_key)
          else target_key
      | _ \<Rightarrow> target_key)"

text \<open>\<^verbatim>\<open>xs.pop(i)\<close> for an index in range, and lines 296-299: insertion at an index, at
  the end when the index is not inside the list.\<close>

definition pop_at :: "nat \<Rightarrow> 'a list \<Rightarrow> 'a list" where
  "pop_at i xs = take i xs @ drop (Suc i) xs"

definition insert_at :: "nat \<Rightarrow> 'a \<Rightarrow> 'a list \<Rightarrow> 'a list" where
  "insert_at n x xs = (if n \<ge> length xs then xs @ [x] else take n xs @ [x] @ drop n xs)"

text \<open>Lines 281-303, mode \<^verbatim>\<open>move\<close>: the new section list and whether \<^verbatim>\<open>any_changed\<close> is
  set. ValueError and TypeError of \<^verbatim>\<open>int(content)\<close> are caught; any other exception
  leaves the function.\<close>

definition move_section ::
  "nat \<Rightarrow> string option \<Rightarrow> pyval \<Rightarrow> PlanSection list \<Rightarrow> PlanSection list \<times> (error + bool)" where
  "move_section existing_idx target_key content_v secs =
     (if \<not> key_given target_key then
        (case py_int content_v of
           Inr n \<Rightarrow>
             (let new_index = max 0 n in
              if int existing_idx \<noteq> new_index then
                (insert_at (nat new_index) (secs ! existing_idx) (pop_at existing_idx secs),
                 Inr True)
              else (secs, Inr False))
         | Inl e \<Rightarrow>
             if e = ValueError \<or> e = TypeError then (secs, Inr False) else (secs, Inl e))
      else (secs, Inr False))"

text \<open>Lines 313-340: \<^verbatim>\<open>replace\<close>, \<^verbatim>\<open>append\<close> and \<^verbatim>\<open>merge\<close> on one key of a mapping. Any
  other mode leaves the mapping as it is.\<close>

definition update_key ::
  "pyval \<Rightarrow> string \<Rightarrow> pyval \<Rightarrow> (string \<times> pyval) list \<Rightarrow> error + (string \<times> pyval) list" where
  "update_key mode k content_v d =
     (if mode = VStr ''replace'' then Inr (dict_set k content_v d)
      else if mode = VStr ''append'' then
        (case dict_get d k VNone of
           VNone \<Rightarrow> Inr (dict_set k content_v d)
         | VList cur \<Rightarrow>
             (case content_v of
                VList new \<Rightarrow> Inr (dict_set k (VList (cur @ new)) d)
              | _ \<Rightarrow> Inr (dict_set k (VList (cur @ [content_v])) d))
         | VStr cur \<Rightarrow>
             (case content_v of
                VList new \<Rightarrow> Inr (dict_set k (VList (VStr cur # new)) d)
              | VStr new \<Rightarrow> Inr (dict_set k (VStr (cur @ [CHR 0x0A] @ new)) d)
              | _ \<Rightarrow> Inl TypeError)
         | current_val \<Rightarrow> Inr (dict_set k (VList [current_val, content_v]) d))
      else if mode = VStr ''merge'' then
        (case content_v of
           VDict new \<Rightarrow>
             (case map_of d k of
                None \<Rightarrow> Inl KeyError
              | Some (VDict cur) \<Rightarrow> Inr (dict_set k (VDict (dict_update cur new)) d)
              | Some _ \<Rightarrow> Inl AttributeError)
         | _ \<Rightarrow> Inr (dict_set k content_v d))
      else Inr d)"

text \<open>Lines 343-359: the same modes on the whole content of a section.\<close>

definition update_whole :: "pyval \<Rightarrow> pyval \<Rightarrow> pyval \<Rightarrow> pyval" where
  "update_whole mode content_v existing_content =
     (if mode = VStr ''replace'' then content_v
      else if mode = VStr ''append'' then
        (case (existing_content, content_v) of
           (VStr cur, VStr new) \<Rightarrow> VStr (cur @ [CHR 0x0A, CHR 0x0A] @ new)
         | (VList cur, VList new) \<Rightarrow> VList (cur @ new)
         | (VList cur, VStr new) \<Rightarrow> VList (cur @ [VStr new])
         | (VDict cur, VDict new) \<Rightarrow> VDict (dict_update cur new)
         | _ \<Rightarrow> content_v)
      else if mode = VStr ''merge'' then
        (case (existing_content, content_v) of
           (VDict cur, VDict new) \<Rightarrow> VDict (dict_update cur new)
         | _ \<Rightarrow> content_v)
      else content_v)"

text \<open>Lines 257-359: a command on the section found at \<open>existing_idx\<close>. The result is the
  section list as the command leaves it, and either the exception that leaves the
  function or whether the command reaches \<^verbatim>\<open>any_changed = True\<close>.\<close>

definition update_existing ::
  "nat \<Rightarrow> string option \<Rightarrow> pyval \<Rightarrow> pyval \<Rightarrow> PlanSection list
     \<Rightarrow> PlanSection list \<times> (error + bool)" where
  "update_existing existing_idx target_key0 mode content_v secs =
     (let existing = secs ! existing_idx;
          target_key = resolve_target_key target_key0 (content existing)
      in
      if mode = VStr ''delete'' then
        (if key_given target_key then
           (case content existing of
              VDict d \<Rightarrow>
                if dict_has d (the target_key)
                then (secs[existing_idx := existing\<lparr>content := VDict (dict_del (the target_key) d)\<rparr>],
                      Inr True)
                else (secs, Inr True)
            | _ \<Rightarrow> (secs, Inr True))
         else (pop_at existing_idx secs, Inr True))
      else if mode = VStr ''move'' then move_section existing_idx target_key content_v secs
      else if key_given target_key then
        (let d = (case content existing of
                    VDict d0 \<Rightarrow> d0
                  | c \<Rightarrow> if truthy c then [(''General'', c)] else [])
         in case update_key mode (the target_key) content_v d of
              Inr d' \<Rightarrow> (secs[existing_idx := existing\<lparr>content := VDict d'\<rparr>], Inr True)
            | Inl e \<Rightarrow> (secs[existing_idx := existing\<lparr>content := VDict d\<rparr>], Inl e))
      else
        (secs[existing_idx := existing\<lparr>content := update_whole mode content_v (content existing)\<rparr>],
         Inr True))"

text \<open>Lines 361-376: no section matches. \<open>new_section\<close> stands for the constructor
  \<^verbatim>\<open>PlanSection(title=..., content=...)\<close> of \<^verbatim>\<open>models.py\<close>: it gives the section, or
  \<open>None\<close> when it raises, which the code catches.\<close>

definition create_section ::
  "(string \<Rightarrow> pyval \<Rightarrow> PlanSection option) \<Rightarrow> string \<Rightarrow> string option \<Rightarrow> pyval \<Rightarrow> pyval
     \<Rightarrow> PlanSection list \<Rightarrow> PlanSection list \<times> (error + bool)" where
  "create_section new_section normalized_title target_key mode content_v secs =
     (if mode = VStr ''delete'' then (secs, Inr False)
      else
        (let final_content =
               (if key_given target_key then VDict [(the target_key, content_v)] else content_v)
         in case new_section normalized_title final_content of
              Some s \<Rightarrow> (secs @ [s], Inr True)
            | None \<Rightarrow> (secs, Inr False)))"

text \<open>Lines 203-378: the body of the loop, for one element of \<^verbatim>\<open>updates\<close>.\<close>

definition apply_update_item ::
  "(string \<Rightarrow> pyval \<Rightarrow> PlanSection option) \<Rightarrow> pyval \<Rightarrow> AccountPlan
     \<Rightarrow> AccountPlan \<times> (error + bool)" where
  "apply_update_item new_section update_item plan =
     (case update_item of
        VDict item \<Rightarrow>
          (let section_path = dict_get item ''section'' VNone;
               content_v = unwrap_content (dict_get item ''content'' VNone);
               mode = dict_get item ''mode'' (VStr ''replace'')
           in
           if \<not> truthy section_path then (plan, Inr False)
           else
             (case section_path of
                VStr path \<Rightarrow>
                  (let parts = str_split CHR ''.'' path;
                       raw_title = str_strip (hd parts);
                       normalized_title = str_title (replace_underscores raw_title);
                       target_key = target_key_of parts;
                       r = (case find_existing raw_title normalized_title (sections plan) of
                              Some existing_idx \<Rightarrow>
                                update_existing existing_idx target_key mode content_v (sections plan)
                            | None \<Rightarrow>
                                create_section new_section normalized_title target_key mode
                                  content_v (sections plan))
                   in (plan\<lparr>sections := fst r\<rparr>, snd r))
              | _ \<Rightarrow> (plan, Inl AttributeError)))
      | _ \<Rightarrow> (plan, Inl AttributeError))"

subsection \<open>The whole call\<close>

text \<open>Lines 202-378: the loop over \<^verbatim>\<open>updates\<close>. An exception ends it; the plan keeps what
  was done to it before.\<close>

fun apply_updates ::
  "(string \<Rightarrow> pyval \<Rightarrow> PlanSection option) \<Rightarrow> pyval list \<Rightarrow> AccountPlan \<Rightarrow> bool
     \<Rightarrow> AccountPlan \<times> (error + bool)" where
  "apply_updates new_section [] plan any_changed = (plan, Inr any_changed)"
| "apply_updates new_section (u # us) plan any_changed =
     (case apply_update_item new_section u plan of
        (plan', Inl e) \<Rightarrow> (plan', Inl e)
      | (plan', Inr changed) \<Rightarrow> apply_updates new_section us plan' (any_changed \<or> changed))"

text \<open>Lines 380-391: the first section titled "Research Sources" goes to the end.\<close>

definition is_research_sources :: "PlanSection \<Rightarrow> bool" where
  "is_research_sources s = (str_lower (title s) = ''research sources'')"

definition move_research_sources_last :: "PlanSection list \<Rightarrow> PlanSection list" where
  "move_research_sources_last secs =
     (case find_first is_research_sources secs of
        None \<Rightarrow> secs
      | Some research_section_idx \<Rightarrow>
          if int research_section_idx < int (length secs) - 1
          then pop_at research_section_idx secs @ [secs ! research_section_idx]
          else secs)"

text \<open>Lines 189-393. The plan is \<open>None\<close> for Python's \<^verbatim>\<open>None\<close>; a plan object is always
  true. The function changes the plan in place, so the plan is returned also when an
  exception leaves the function. (\<^verbatim>\<open>plan.sections\<close> is a list by its type, so lines
  225-226 do nothing.)\<close>

definition apply_plan_update ::
  "(string \<Rightarrow> pyval \<Rightarrow> PlanSection option) \<Rightarrow> AccountPlan option \<Rightarrow> pyval
     \<Rightarrow> AccountPlan option \<times> (error + bool)" where
  "apply_plan_update new_section plan_opt update_data =
     (case plan_opt of
        None \<Rightarrow> (None, Inr False)
      | Some plan \<Rightarrow>
          if \<not> truthy update_data then (Some plan, Inr False)
          else
            (let plan1 = plan\<lparr>history := history plan @ [snapshot_of plan]\<rparr>;
                 updates = (case update_data of VList us \<Rightarrow> us | _ \<Rightarrow> [update_data])
             in case apply_updates new_section updates plan1 False of
                  (plan2, Inl e) \<Rightarrow> (Some plan2, Inl e)
                | (plan2, Inr any_changed) \<Rightarrow>
                    (Some (if any_changed
                           then plan2\<lparr>sections := move_research_sources_last (sections plan2)\<rparr>
                           else plan2),
                     Inr any_changed)))"

section \<open>The contract parser (nodes.py) and the reply extraction (main.py)\<close>

text \<open>
  \<^verbatim>\<open>json.loads\<close> belongs to Python's library, so it is an argument \<open>loads\<close> of the
  functions below: the value it decodes, or the exception it raises. For a text that is
  not JSON that is \<open>JSONDecodeError\<close>; it can also raise other exceptions (a plain
  ValueError for an integer literal of more than 4300 digits, RecursionError for deep
  nesting).
\<close>

text \<open>Lines 179-182 of nodes.py and 107-110 of main.py: the text from the first opening
  brace to the last closing brace, when both are there.\<close>

definition json_block :: "string \<Rightarrow> string option" where
  "json_block text =
     (let start = str_find CHR ''{'' text;
          end_idx = str_rfind CHR ''}'' text
      in if start \<noteq> -1 \<and> end_idx \<noteq> -1 then Some (str_slice text start (end_idx + 1))
         else None)"

text \<open>\<^verbatim>\<open>parse_json_output\<close> (nodes.py, lines 170-187). The first attempt catches
  JSONDecodeError only, so any other exception of \<^verbatim>\<open>json.loads\<close> leaves the function;
  the second attempt catches every exception. Python's \<^verbatim>\<open>None\<close> is the result when both
  attempts fail, and also when the text decodes to \<^verbatim>\<open>null\<close>.\<close>

definition parse_json_output :: "(string \<Rightarrow> error + pyval) \<Rightarrow> string \<Rightarrow> error + pyval" where
  "parse_json_output loads text =
     (case loads text of
        Inr v \<Rightarrow> Inr v
      | Inl err \<Rightarrow>
          if err = JSONDecodeError then
            (case json_block text of
               None \<Rightarrow> Inr VNone
             | Some json_raw \<Rightarrow> (case loads json_raw of Inr v \<Rightarrow> Inr v | Inl err2 \<Rightarrow> Inr VNone))
          else Inl err)"

text \<open>Both parse attempts are made and fail to give a JSON value: the whole text is not
  JSON, and the text between the braces, if there is one, does not decode.\<close>

definition unparsable :: "(string \<Rightarrow> error + pyval) \<Rightarrow> string \<Rightarrow> bool" where
  "unparsable loads text =
     (loads text = Inl JSONDecodeError \<and>
      (case json_block text of
         None \<Rightarrow> True
       | Some json_raw \<Rightarrow> (case loads json_raw of Inl err \<Rightarrow> True | Inr v \<Rightarrow> False)))"

text \<open>\<^verbatim>\<open>get_clean_content\<close> (main.py, lines 95-117). \<open>reply_of\<close> is the test
  \<^verbatim>\<open>isinstance(data, dict) and "reply" in data\<close> with the value \<^verbatim>\<open>data["reply"]\<close>;
  \<open>extract_reply\<close> is the two \<^verbatim>\<open>try\<close> blocks, whose bare \<^verbatim>\<open>except\<close> clauses catch every
  exception. The result is whatever the reply field holds, so the function is modelled on
  every value: on an argument that is not a string, \<^verbatim>\<open>json.loads\<close> and \<^verbatim>\<open>.find\<close> raise,
  both \<^verbatim>\<open>except\<close> clauses catch, and the argument is returned.\<close>

definition reply_of :: "pyval \<Rightarrow> pyval option" where
  "reply_of data = (case data of VDict d \<Rightarrow> map_of d ''reply'' | _ \<Rightarrow> None)"

definition extract_reply :: "(string \<Rightarrow> error + pyval) \<Rightarrow> string \<Rightarrow> pyval option" where
  "extract_reply loads text =
     (case (case loads text of Inl err \<Rightarrow> None | Inr data \<Rightarrow> reply_of data) of
        Some r \<Rightarrow> Some r
      | None \<Rightarrow>
          (case json_block text of
             None \<Rightarrow> None
           | Some json_raw \<Rightarrow>
               (case loads json_raw of Inl err \<Rightarrow> None | Inr data \<Rightarrow> reply_of data)))"

definition get_clean_content :: "(string \<Rightarrow> error + pyval) \<Rightarrow> pyval \<Rightarrow> pyval" where
  "get_clean_content loads msg_content =
     (case msg_content of
        VStr text \<Rightarrow> (case extract_reply loads text of Some r \<Rightarrow> r | None \<Rightarrow> msg_content)
      | _ \<Rightarrow> msg_content)"

section \<open>The conversation node: \<^verbatim>\<open>conversation_agent\<close> (nodes.py)\<close>

subsection \<open>The session and the collaborators\<close>

text \<open>
  A message of the conversation or of the request to the completion service: the two
  message classes of the code, and the dictionaries with the role \<^verbatim>\<open>"system"\<close>.
\<close>

datatype message = SystemMessage string | HumanMessage string | AIMessage string

text \<open>
  \<^verbatim>\<open>AgentState\<close> (\<^verbatim>\<open>state.py\<close>) is used as a dictionary: a field is \<open>None\<close> when the
  key is absent or holds \<^verbatim>\<open>None\<close>. The field \<open>state_plan\<close> is the key \<^verbatim>\<open>"plan"\<close>.
\<close>

record AgentState =
  messages :: "message list"
  state_plan :: "AccountPlan option"
  research_result :: "(string \<times> pyval) list option"
  research_plan :: "pyval option"
  current_task_index :: "int option"
  aggregated_findings :: "pyval option"
  research_mode :: "string option"
  attached_files :: "pyval option"
  research_needed :: "bool option"
  last_action :: "pyval option"
  new_version_created :: "bool option"
  research_plan_approved :: "bool option"
  continue_after_pause :: "bool option"
  steps_in_current_turn :: "int option"
  research_query :: "pyval option"
  target_section :: "pyval option"

text \<open>The context bundle of lines 434-445, which \<^verbatim>\<open>json.dumps\<close> turns into text.\<close>

record context_data =
  ctx_plan :: "AccountPlan option"
  ctx_research_result :: "(string \<times> pyval) list option"
  ctx_research_mode :: string
  ctx_attached_files :: pyval
  ctx_rag_context :: string
  ctx_research_plan_status :: "(nat \<times> int \<times> int) option"

text \<open>
  What the node calls and does not define: the prompt text, the completion service
  (\<^verbatim>\<open>conversation_llm.invoke\<close>, giving the content of the response or an exception), the
  retrieval service (\<^verbatim>\<open>rag.query\<close>), \<^verbatim>\<open>json.loads\<close>, \<^verbatim>\<open>json.dumps\<close> on the context
  bundle, and the constructor of \<^verbatim>\<open>PlanSection\<close>.
\<close>

record env =
  SYSTEM_PROMPT :: string
  conversation_llm :: "message list \<Rightarrow> error + string"
  rag_query :: "string \<Rightarrow> error + string"
  json_loads :: "string \<Rightarrow> error + pyval"
  json_dumps :: "context_data \<Rightarrow> string"
  PlanSection_new :: "string \<Rightarrow> pyval \<Rightarrow> PlanSection option"

subsection \<open>Building the request (lines 408-455)\<close>

text \<open>\<^verbatim>\<open>len(x)\<close>\<close>

fun py_len :: "pyval \<Rightarrow> error + nat" where
  "py_len (VList xs) = Inr (length xs)"
| "py_len (VDict d) = Inr (length d)"
| "py_len (VStr s) = Inr (length s)"
| "py_len v = Inl TypeError"

text \<open>Lines 420-432: the retrieval query on the last message; a failure is swallowed.\<close>

definition rag_context_of :: "env \<Rightarrow> message list \<Rightarrow> string" where
  "rag_context_of e msgs =
     (case last msgs of
        HumanMessage query_text \<Rightarrow>
          if length query_text > 5 \<and> take 1 query_text \<noteq> ''[''
          then (case rag_query e query_text of Inr r \<Rightarrow> r | Inl err \<Rightarrow> [])
          else []
      | _ \<Rightarrow> [])"

definition build_llm_messages :: "env \<Rightarrow> AgentState \<Rightarrow> error + message list" where
  "build_llm_messages e st =
     (let research_plan_v = (case research_plan st of None \<Rightarrow> VNone | Some v \<Rightarrow> v);
          current = (case current_task_index st of None \<Rightarrow> 0 | Some i \<Rightarrow> i);
          status =
            (if truthy research_plan_v then
               (case py_len research_plan_v of
                  Inl err \<Rightarrow> Inl err
                | Inr n \<Rightarrow> Inr (Some (n, current, current)))
             else Inr None)
      in case status of
           Inl err \<Rightarrow> Inl err
         | Inr research_plan_status \<Rightarrow>
             (let context_json = json_dumps e
                    \<lparr> ctx_plan = state_plan st,
                      ctx_research_result = research_result st,
                      ctx_research_mode =
                        (case research_mode st of None \<Rightarrow> ''single'' | Some m \<Rightarrow> m),
                      ctx_attached_files =
                        (case attached_files st of None \<Rightarrow> VList [] | Some f \<Rightarrow> f),
                      ctx_rag_context = rag_context_of e (messages st),
                      ctx_research_plan_status = research_plan_status \<rparr>
              in Inr ([SystemMessage (SYSTEM_PROMPT e),
                       SystemMessage (''Current plan & research (JSON): '' @ context_json)]
                      @ messages st)))"

subsection \<open>The completion call and its one retry (lines 457-478)\<close>

definition retry_instruction :: string where
  "retry_instruction = ''ERROR: Your previous response was NOT valid JSON. You must return ONLY a JSON object with 'reply' and 'control' keys. Do not output plain text. Please retry.''"

text \<open>The result is the list of the requests sent to the completion service, in order,
  and either the exception that leaves the node (of the first call, or of the first parse
  when \<^verbatim>\<open>json.loads\<close> raises something else than JSONDecodeError), or the content and
  its parse that the node goes on with. An exception of the retry, of its call or of its
  parse, is caught; after the call the content is the new one already.\<close>

definition complete_and_parse ::
  "env \<Rightarrow> message list \<Rightarrow> message list list \<times> (error + string \<times> pyval)" where
  "complete_and_parse e llm_messages =
     (case conversation_llm e llm_messages of
        Inl err \<Rightarrow> ([llm_messages], Inl err)
      | Inr content_v \<Rightarrow>
          (case parse_json_output (json_loads e) content_v of
             Inl err \<Rightarrow> ([llm_messages], Inl err)
           | Inr parsed \<Rightarrow>
               if \<not> truthy parsed then
                 (let retry_messages =
                        llm_messages @ [AIMessage content_v, SystemMessage retry_instruction]
                  in case conversation_llm e retry_messages of
                       Inr content2 \<Rightarrow>
                         (case parse_json_output (json_loads e) content2 of
                            Inr parsed2 \<Rightarrow> ([llm_messages, retry_messages], Inr (content2, parsed2))
                          | Inl err \<Rightarrow> ([llm_messages, retry_messages], Inr (content2, parsed)))
                     | Inl err \<Rightarrow> ([llm_messages, retry_messages], Inr (content_v, parsed)))
               else ([llm_messages], Inr (content_v, parsed))))"

subsection \<open>The sources of a research result (lines 480-515)\<close>

definition source_entry :: "pyval \<Rightarrow> error + pyval" where
  "source_entry s =
     (case s of
        VDict d \<Rightarrow>
          Inr (VDict [(''title'', dict_get d ''title'' (VStr ''Source'')),
                      (''url'', dict_get d ''url'' (VStr ''#'')),
                      (''snippet'', dict_get d ''snippet'' (VStr []))])
      | _ \<Rightarrow> Inl AttributeError)"

fun source_entries :: "pyval list \<Rightarrow> error + pyval list" where
  "source_entries [] = Inr []"
| "source_entries (s # ss) =
     (case source_entry s of
        Inl err \<Rightarrow> Inl err
      | Inr x \<Rightarrow> (case source_entries ss of Inl err \<Rightarrow> Inl err | Inr xs \<Rightarrow> Inr (x # xs)))"

text \<open>The loop \<^verbatim>\<open>for s in sources\<close> over a value that is true: the elements of a list;
  the keys of a mapping and the characters of a string have no \<^verbatim>\<open>.get\<close>; anything else
  cannot be iterated.\<close>

definition sources_content_of :: "pyval \<Rightarrow> error + pyval list" where
  "sources_content_of sources =
     (case sources of
        VList xs \<Rightarrow> source_entries xs
      | VDict d \<Rightarrow> Inl AttributeError
      | VStr s \<Rightarrow> Inl AttributeError
      | _ \<Rightarrow> Inl TypeError)"

text \<open>The plan and the research result after the block. An exception of
  \<^verbatim>\<open>apply_plan_update\<close> is caught here; what it did to the plan before stays.\<close>

definition inject_sources ::
  "env \<Rightarrow> AccountPlan option \<Rightarrow> (string \<times> pyval) list option
     \<Rightarrow> error + AccountPlan option \<times> (string \<times> pyval) list option" where
  "inject_sources e plan_opt research_result_v =
     (case research_result_v of
        None \<Rightarrow> Inr (plan_opt, None)
      | Some rr \<Rightarrow>
          if rr = [] then Inr (plan_opt, Some rr)
          else
            (let sources = dict_get rr ''sources'' (VList []) in
             if truthy sources \<and> plan_opt \<noteq> None then
               (case sources_content_of sources of
                  Inl err \<Rightarrow> Inl err
                | Inr sources_content \<Rightarrow>
                    Inr (fst (apply_plan_update (PlanSection_new e) plan_opt
                                (VDict [(''section'', VStr ''Research Sources''),
                                        (''content'', VList sources_content),
                                        (''mode'', VStr ''append'')])),
                         Some (dict_del ''sources'' rr)))
             else Inr (plan_opt, Some (dict_del ''sources'' rr))))"

subsection \<open>Reading the parsed output (lines 517-559)\<close>

record directive =
  reply_text :: pyval
  action :: pyval
  dir_research_query :: pyval
  dir_target_section :: pyval
  set_plan_title :: pyval
  update_data :: pyval
  new_research_plan :: pyval

definition raw_reply :: "string \<Rightarrow> directive" where
  "raw_reply content_v =
     \<lparr> reply_text = VStr content_v, action = VStr ''NONE'', dir_research_query = VStr [],
       dir_target_section = VStr [], set_plan_title = VNone, update_data = VNone,
       new_research_plan = VNone \<rparr>"

text \<open>Lines 535-555: a JSON value that is not a directive, after a short title.\<close>

definition implicit_update :: "string \<Rightarrow> pyval \<Rightarrow> directive" where
  "implicit_update content_v parsed =
     (let start_char = (if is_dict parsed then CHR ''{'' else CHR ''['');
          json_start = str_find start_char content_v
      in if json_start > 0 then
           (let potential_title = str_strip (take (nat json_start) content_v) in
            if potential_title \<noteq> [] \<and> length potential_title < 100 then
              (raw_reply content_v)
                \<lparr> update_data := VDict [(''section'', VStr potential_title),
                                        (''content'', parsed), (''mode'', VStr ''merge'')],
                  reply_text := VStr (''I've updated the '' @ potential_title @ '' section.'') \<rparr>
            else raw_reply content_v)
         else raw_reply content_v)"

definition interpret_output :: "string \<Rightarrow> pyval \<Rightarrow> error + directive" where
  "interpret_output content_v parsed =
     (if \<not> truthy parsed then Inr (raw_reply content_v)
      else
        (case parsed of
           VDict d \<Rightarrow>
             if dict_has d ''control'' \<or> dict_has d ''reply'' \<or> dict_has d ''update'' then
               (case dict_get d ''control'' (VDict []) of
                  VDict control \<Rightarrow>
                    Inr \<lparr> reply_text = dict_get d ''reply'' (VStr []),
                          action = dict_get control ''action'' (VStr ''NONE''),
                          dir_research_query = dict_get control ''research_query'' (VStr []),
                          dir_target_section = dict_get control ''target_section'' (VStr []),
                          set_plan_title = dict_get control ''set_plan_title'' VNone,
                          update_data = dict_get d ''update'' VNone,
                          new_research_plan = dict_get control ''research_plan'' VNone \<rparr>
                | _ \<Rightarrow> Inl AttributeError)
             else Inr (implicit_update content_v parsed)
         | _ \<Rightarrow> Inr (implicit_update content_v parsed)))"

subsection \<open>Updating the plan and the session (lines 561-618)\<close>

text \<open>Lines 567-583: the update of the directive and the new title; the result is the
  plan and \<^verbatim>\<open>version_bumped\<close>.\<close>

definition update_plan_of_directive ::
  "env \<Rightarrow> directive \<Rightarrow> AccountPlan option \<Rightarrow> AccountPlan option \<times> bool" where
  "update_plan_of_directive e d plan_opt =
     (let r = (if truthy (update_data d) \<and> plan_opt \<noteq> None
               then (case apply_plan_update (PlanSection_new e) plan_opt (update_data d) of
                       (p, Inr changed) \<Rightarrow> (p, changed)
                     | (p, Inl err) \<Rightarrow> (p, False))
               else (plan_opt, False))
      in case fst r of
           Some p \<Rightarrow>
             if truthy (set_plan_title d)
             then (Some (p\<lparr>plan_title := set_plan_title d\<rparr>), True)
             else r
         | None \<Rightarrow> r)"

text \<open>Lines 585-616: the research actions.\<close>

definition handle_research_action :: "directive \<Rightarrow> AgentState \<Rightarrow> AgentState" where
  "handle_research_action d st =
     (if action d = VStr ''PLAN_RESEARCH'' then
        (if truthy (new_research_plan d)
         then st\<lparr> research_plan := Some (new_research_plan d),
                  current_task_index := Some 0,
                  aggregated_findings := Some (VList []),
                  research_mode := Some ''multi'',
                  research_plan_approved := Some False \<rparr>
         else st)
          \<lparr> research_needed := Some False \<rparr>
      else if action d = VStr ''EXECUTE_PLAN'' then
        (let steps = (case steps_in_current_turn st of None \<Rightarrow> 0 | Some n \<Rightarrow> n) in
         if steps \<ge> 1 then
           st\<lparr> research_needed := Some False,
                continue_after_pause := Some True,
                research_plan_approved := Some True \<rparr>
         else
           st\<lparr> research_needed := Some True,
                continue_after_pause := Some False,
                research_mode := Some ''multi'',
                research_plan_approved := Some True \<rparr>)
      else if action d = VStr ''CALL_RESEARCH'' then
        st\<lparr> research_needed := Some True,
             research_mode := Some ''single'',
             research_query := Some (dir_research_query d),
             target_section := Some (dir_target_section d) \<rparr>
      else st\<lparr> research_needed := Some False \<rparr>)"

subsection \<open>The node (lines 395-618)\<close>

definition greeting :: string where
  "greeting = ''Hello! I'm your Account Plan Agent. What company and goal would you like to work on?''"

text \<open>Lines 480-618: what the node does with the content and the parse it has settled
  on.\<close>

definition respond :: "env \<Rightarrow> AgentState \<Rightarrow> string \<Rightarrow> pyval \<Rightarrow> error + AgentState" where
  "respond e st content_v parsed =
     (case inject_sources e (state_plan st) (research_result st) of
        Inl err \<Rightarrow> Inl err
      | Inr (plan1, research_result1) \<Rightarrow>
          (case interpret_output content_v parsed of
             Inl err \<Rightarrow> Inl err
           | Inr d \<Rightarrow>
               (let r = update_plan_of_directive e d plan1;
                    st1 = st\<lparr> messages := messages st @ [AIMessage content_v],
                              state_plan := fst r,
                              research_result := research_result1,
                              last_action := Some (action d),
                              new_version_created := Some (snd r) \<rparr>
                in Inr (handle_research_action d st1))))"

text \<open>The result is the list of the requests sent to the completion service and the
  state that the node returns, or the exception that leaves it.\<close>

definition conversation_agent ::
  "env \<Rightarrow> AgentState \<Rightarrow> message list list \<times> (error + AgentState)" where
  "conversation_agent e st =
     (if messages st = [] then
        ([], Inr (st\<lparr> messages := [AIMessage greeting],
                       research_needed := Some False,
                       last_action := Some (VStr ''NONE''),
                       new_version_created := Some False \<rparr>))
      else
        (case build_llm_messages e st of
           Inl err \<Rightarrow> ([], Inl err)
         | Inr llm_messages \<Rightarrow>
             (case complete_and_parse e llm_messages of
                (calls, Inl err) \<Rightarrow> (calls, Inl err)
              | (calls, Inr (content_v, parsed)) \<Rightarrow> (calls, respond e st content_v parsed))))"

section \<open>One turn\<close>

text \<open>Modelled from the spec: the turn loop of \<^verbatim>\<open>graph_app.py\<close>, which \<^verbatim>\<open>chat\<close> runs
  (main.py, line 206) and which is not among the sources. The spec's turn coordinator
  "decides whether to invoke the core again within the same request", and a research step
  that the node asks for runs "before the Contract Parser/Merge Engine are invoked again";
  main.py names the shape: conversation, maybe research, conversation. (The sources agree:
  \<^verbatim>\<open>chat\<close> clears \<^verbatim>\<open>research_result\<close> at the start of every turn, line 157, and the
  node reads it, lines 411 and 481, so the run of the node that takes up a research result
  belongs to the turn of that research; lines 596-598 of the node test whether a step has
  run in this turn.) So the node runs; when it leaves "research needed" set, the research
  step runs (an argument: the research execution service with the bookkeeping of its
  node) and the node runs once more. The result lists the requests of the whole turn.\<close>

definition run_turn ::
  "env \<Rightarrow> (AgentState \<Rightarrow> AgentState) \<Rightarrow> AgentState \<Rightarrow> message list list \<times> (error + AgentState)" where
  "run_turn e research st =
     (case conversation_agent e st of
        (calls1, Inl err) \<Rightarrow> (calls1, Inl err)
      | (calls1, Inr st1) \<Rightarrow>
          if research_needed st1 = Some True then
            (case conversation_agent e (research st1) of
               (calls2, r) \<Rightarrow> (calls1 @ calls2, r))
          else (calls1, Inr st1))"

section \<open>Example data\<close>

text \<open>Modelled from the spec: the constructor of \<^verbatim>\<open>PlanSection\<close>, whose class
  (\<^verbatim>\<open>models.py\<close>) is not among the sources. The spec's section is "a display title
  and content, which is polymorphic"; the constructor is taken to accept every title and
  content and to store them as given.\<close>

definition plain_section :: "string \<Rightarrow> pyval \<Rightarrow> PlanSection option" where
  "plain_section t c = Some \<lparr>title = t, content = c\<rparr>"

text \<open>\<^verbatim>\<open>new_account_plan\<close> (main.py, lines 119-131), with the fresh identifier and the
  current time as arguments.\<close>

definition new_account_plan ::
  "string \<Rightarrow> string \<Rightarrow> string \<Rightarrow> string \<Rightarrow> string \<Rightarrow> AccountPlan" where
  "new_account_plan uuid now user_id company_v goal_v =
     \<lparr> plan_id = uuid, userId = user_id, company = company_v, goal = goal_v,
       plan_title = VNone, createdAt = now, updatedAt = now, version = 1, sections = [],
       history = [] \<rparr>"

text \<open>A fresh plan holding the given sections, and an update command with its three
  keys.\<close>

definition demo_plan :: "PlanSection list \<Rightarrow> AccountPlan" where
  "demo_plan secs =
     (new_account_plan ''plan-1'' ''2025-01-01T00:00:00'' ''user-1'' [] [])
       \<lparr>sections := secs\<rparr>"

definition command :: "string \<Rightarrow> pyval \<Rightarrow> string \<Rightarrow> pyval" where
  "command path content_v mode =
     VDict [(''section'', VStr path), (''content'', content_v), (''mode'', VStr mode)]"

text \<open>The index of the section that a path names (lines 219-242), as
  \<open>apply_update_item\<close> computes it.\<close>

definition existing_index :: "string \<Rightarrow> PlanSection list \<Rightarrow> nat option" where
  "existing_index path secs =
     (let raw_title = str_strip (hd (str_split CHR ''.'' path))
      in find_existing raw_title (str_title (replace_underscores raw_title)) secs)"

text \<open>
  Stand-ins for the collaborators in the examples. \<open>demo_loads\<close> is \<^verbatim>\<open>json.loads\<close> on
  the texts of the examples: it decodes the four JSON texts below, raises ValueError on a
  text of more than 4300 digits 1 (an integer literal beyond CPython's limit), and raises
  JSONDecodeError on every other text (none of the other texts that the examples hand to
  it is JSON). \<open>nested_reply_text\<close> is the JSON object whose reply field holds
  \<open>inner_reply_text\<close> as a string, its quotes escaped by backslashes.
\<close>

definition execute_plan_text :: string where
  \<open>execute_plan_text = ''{"reply": "", "control": {"action": "EXECUTE_PLAN"}}''\<close>

definition call_research_text :: string where
  \<open>call_research_text =
     ''{"reply": "", "control": {"action": "CALL_RESEARCH", "research_query": "Acme revenue"}}''\<close>

definition inner_reply_text :: string where
  \<open>inner_reply_text = ''{"reply": "hi"}''\<close>

definition nested_reply_text :: string where
  \<open>nested_reply_text =
     ''{"reply": "{'' @ [CHR 0x5C] @ ''"reply'' @ [CHR 0x5C] @ ''": '' @ [CHR 0x5C]
       @ ''"hi'' @ [CHR 0x5C] @ ''"}"}''\<close>

definition demo_loads :: "string \<Rightarrow> error + pyval" where
  "demo_loads text =
     (if text = execute_plan_text then
        Inr (VDict [(''reply'', VStr []),
                    (''control'', VDict [(''action'', VStr ''EXECUTE_PLAN'')])])
      else if text = call_research_text then
        Inr (VDict [(''reply'', VStr []),
                    (''control'', VDict [(''action'', VStr ''CALL_RESEARCH''),
                                         (''research_query'', VStr ''Acme revenue'')])])
      else if text = nested_reply_text then Inr (VDict [(''reply'', VStr inner_reply_text)])
      else if text = inner_reply_text then Inr (VDict [(''reply'', VStr ''hi'')])
      else if list_all (\<lambda>c. c = CHR ''1'') text \<and> length text > 4300 then Inl ValueError
      else Inl JSONDecodeError)"

definition demo_env :: "(message list \<Rightarrow> error + string) \<Rightarrow> env" where
  "demo_env llm =
     \<lparr> SYSTEM_PROMPT = ''FORMAT CONTRACT'', conversation_llm = llm,
       rag_query = (\<lambda>q. Inr []), json_loads = demo_loads, json_dumps = (\<lambda>c. ''{}''),
       PlanSection_new = plain_section \<rparr>"

text \<open>A completion service that gives one malformed text, and another one when asked to
  retry; one that on the retry gives a directive after some words of introduction; and one
  that plays a turn with a research step: malformed, then on the retry the directive
  \<^verbatim>\<open>CALL_RESEARCH\<close>, and in the next run of the node malformed twice.\<close>

definition malformed_llm :: "message list \<Rightarrow> error + string" where
  "malformed_llm msgs =
     (if last msgs = SystemMessage retry_instruction then Inr ''Still no JSON, sorry.''
      else Inr ''Sorry, here's your update: {bad json'')"

definition repaired_llm :: "message list \<Rightarrow> error + string" where
  "repaired_llm msgs =
     (if last msgs = SystemMessage retry_instruction
      then Inr (''Here is the JSON: '' @ execute_plan_text)
      else Inr ''Sorry, here's your update: {bad json'')"

definition turn_llm :: "message list \<Rightarrow> error + string" where
  "turn_llm msgs =
     (if last msgs = SystemMessage retry_instruction then
        (if length msgs = 5 then Inr call_research_text else Inr ''Still no JSON, sorry.'')
      else
        (if length msgs = 3 then Inr ''Sure, researching now.''
         else Inr ''Here is what I found: revenue grew.''))"

text \<open>A research step for the examples: it stores a result without sources and counts the
  step.\<close>

definition demo_research :: "AgentState \<Rightarrow> AgentState" where
  "demo_research st =
     st\<lparr> research_result := Some [(''summary'', VStr ''Revenue grew''),
                                   (''query'', VStr ''Acme revenue'')],
          steps_in_current_turn := Some 1 \<rparr>"

text \<open>A session at the start of a turn (\<^verbatim>\<open>steps_in_current_turn = 0\<close>) or after one
  research step of this turn (\<^verbatim>\<open>steps_in_current_turn = 1\<close>), in the mode \<^verbatim>\<open>"single"\<close>,
  with a research plan of one task that waits for approval.\<close>

definition demo_state :: "int \<Rightarrow> AgentState" where
  "demo_state steps =
     \<lparr> messages = [HumanMessage ''Go ahead''],
       state_plan = Some (demo_plan []),
       research_result = None,
       research_plan = Some (VList [VDict [(''task'', VStr ''Revenue'')]]),
       current_task_index = Some 0,
       aggregated_findings = Some (VList []),
       research_mode = Some ''single'',
       attached_files = None,
       research_needed = Some False,
       last_action = Some (VStr ''CALL_RESEARCH''),
       new_version_created = Some False,
       research_plan_approved = Some False,
       continue_after_pause = Some False,
       steps_in_current_turn = Some steps,
       research_query = None,
       target_section = None \<rparr>"

section \<open>Properties of the merge engine\<close>

subsection \<open>Auxiliary facts\<close>

lemma find_first_Some:
  "find_first P xs = Some i \<Longrightarrow> i < length xs \<and> P (xs ! i)"
  by (induction xs arbitrary: i) (auto split: if_splits)

lemma find_first_None:
  "find_first P xs = None \<Longrightarrow> x \<in> set xs \<Longrightarrow> \<not> P x"
  by (induction xs) (auto split: if_splits)

lemma str_split_not_Nil: "str_split sep s \<noteq> []"
  by (induction s) (auto split: list.splits)

lemma move_section_False:
  "snd (move_section i tk c secs) = Inr False \<Longrightarrow> fst (move_section i tk c secs) = secs"
  by (auto simp: move_section_def Let_def split: if_splits sum.splits)

lemma update_existing_False:
  "snd (update_existing i tk mode c secs) = Inr False \<Longrightarrow> fst (update_existing i tk mode c secs) = secs"
  by (auto simp: update_existing_def Let_def move_section_False
           split: if_splits sum.splits pyval.splits)

lemma create_section_False:
  "snd (create_section ns nt tk mode c secs) = Inr False \<Longrightarrow> fst (create_section ns nt tk mode c secs) = secs"
  by (auto simp: create_section_def Let_def split: if_splits option.splits)

lemma apply_update_item_frame:
  "fst (apply_update_item ns u plan) = plan\<lparr>sections := sections (fst (apply_update_item ns u plan))\<rparr>"
  by (simp add: apply_update_item_def Let_def split: pyval.splits)

lemma apply_update_item_False:
  "apply_update_item ns u plan = (plan', Inr False) \<Longrightarrow> plan' = plan"
  by (auto simp: apply_update_item_def Let_def update_existing_False create_section_False
           split: pyval.splits if_splits option.splits)

lemma apply_updates_frame:
  "fst (apply_updates ns us plan ch) = plan\<lparr>sections := sections (fst (apply_updates ns us plan ch))\<rparr>"
proof (induction us arbitrary: plan ch)
  case Nil
  then show ?case by simp
next
  case (Cons u us)
  obtain p1 r1 where s: "apply_update_item ns u plan = (p1, r1)" by (cases "apply_update_item ns u plan")
  have f: "p1 = plan\<lparr>sections := sections p1\<rparr>"
    using apply_update_item_frame [of ns u plan] s by simp
  show ?case
  proof (cases r1)
    case (Inl e)
    then show ?thesis using s f by simp
  next
    case (Inr c)
    have "fst (apply_updates ns us p1 (ch \<or> c)) = p1\<lparr>sections := sections (fst (apply_updates ns us p1 (ch \<or> c)))\<rparr>"
      by (rule Cons.IH)
    then have "fst (apply_updates ns us p1 (ch \<or> c)) = plan\<lparr>sections := sections (fst (apply_updates ns us p1 (ch \<or> c)))\<rparr>"
      using f by (metis plan_fields.update_convs(9) plan_fields.surjective)
    then show ?thesis using s Inr by simp
  qed
qed

lemma apply_updates_False:
  "apply_updates ns us plan ch = (plan', Inr False) \<Longrightarrow> plan' = plan \<and> \<not> ch"
proof (induction us arbitrary: plan ch)
  case Nil
  then show ?case by simp
next
  case (Cons u us)
  obtain p1 r1 where s: "apply_update_item ns u plan = (p1, r1)" by (cases "apply_update_item ns u plan")
  show ?case
  proof (cases r1)
    case (Inl e)
    then show ?thesis using s Cons.prems by simp
  next
    case (Inr c)
    then have "apply_updates ns us p1 (ch \<or> c) = (plan', Inr False)"
      using s Cons.prems by simp
    then have "plan' = p1 \<and> \<not> (ch \<or> c)" by (rule Cons.IH)
    then show ?thesis using s Inr apply_update_item_False [of ns u plan p1] by simp
  qed
qed

lemmas eval_defs = apply_plan_update_def apply_update_item_def update_existing_def
  create_section_def move_section_def update_key_def update_whole_def resolve_target_key_def
  target_key_of_def find_existing_def title_matches_def unwrap_content_def
  move_research_sources_last_def is_research_sources_def pop_at_def insert_at_def
  snapshot_of_def dict_get_def dict_has_def dict_del_def dict_update_def loose_key_def
  str_title_def replace_underscores_def str_strip_def is_space_def is_cased_def
  upper_char_def lower_char_def lower_ascii_def upper_letters_def lower_letters_def
  upper_latin1_def lower_latin1_def str_lower_def plain_section_def new_account_plan_def command_def demo_plan_def existing_index_def Let_def

text \<open>The loop changes nothing of the plan but its sections, so the whole call leaves the
  version as it was, whatever it returns.\<close>

lemma apply_updates_version:
  "version (fst (apply_updates ns us plan ch)) = version plan"
proof -
  have "version (fst (apply_updates ns us plan ch)) =
        version (plan\<lparr>sections := sections (fst (apply_updates ns us plan ch))\<rparr>)"
    using apply_updates_frame [of ns us plan ch] by (rule arg_cong)
  then show ?thesis by simp
qed

lemma apply_updates_history:
  "history (fst (apply_updates ns us plan ch)) = history plan"
proof -
  have "history (fst (apply_updates ns us plan ch)) =
        history (plan\<lparr>sections := sections (fst (apply_updates ns us plan ch))\<rparr>)"
    using apply_updates_frame [of ns us plan ch] by (rule arg_cong)
  then show ?thesis by simp
qed

lemma apply_plan_update_version:
  "map_option version (fst (apply_plan_update ns (Some plan) u)) = Some (version plan)"
proof (cases "truthy u")
  case False
  then show ?thesis by (simp add: apply_plan_update_def)
next
  case True
  define plan1 where "plan1 = plan\<lparr>history := history plan @ [snapshot_of plan]\<rparr>"
  define us where "us = (case u of VList us \<Rightarrow> us | _ \<Rightarrow> [u])"
  obtain p2 r2 where s: "apply_updates ns us plan1 False = (p2, r2)"
    by (cases "apply_updates ns us plan1 False")
  have v: "version p2 = version plan"
    using apply_updates_version [of ns us plan1 False] s by (simp add: plan1_def)
  show ?thesis
    using True s [unfolded plan1_def us_def] v
    by (cases r2) (simp_all add: apply_plan_update_def Let_def)
qed

subsection \<open>The version of the plan\<close>

text \<open>
  C1. The claim: every \<^verbatim>\<open>apply_plan_update\<close> call that reports a change strictly
  increases the plan's \<open>version\<close>. The code does not: on a fresh plan (version 1) the
  command \<^verbatim>\<open>{"section": "Financials", "content": "Revenue grew", "mode": "replace"}\<close>
  creates the section, appends the snapshot and returns \<^verbatim>\<open>True\<close>, and the version is
  still 1.
\<close>

theorem apply_plan_update_reports_change_without_new_version:
  "apply_plan_update plain_section (Some (demo_plan []))
     (command ''Financials'' (VStr ''Revenue grew'') ''replace'') =
   (Some ((demo_plan [\<lparr>title = ''Financials'', content = VStr ''Revenue grew''\<rparr>])
            \<lparr>history := [snapshot_of (demo_plan [])]\<rparr>), Inr True)
   \<and> version (demo_plan []) = 1
   \<and> version ((demo_plan [\<lparr>title = ''Financials'', content = VStr ''Revenue grew''\<rparr>])
                 \<lparr>history := [snapshot_of (demo_plan [])]\<rparr>) = 1"
  by (simp add: eval_defs)

subsection \<open>A command that raises\<close>

text \<open>
  C2. The claim: a command whose processing raises is caught and skipped, and the
  commands after it are still applied. The code does not catch the KeyError of a
  \<^verbatim>\<open>merge\<close> into a key that the section's mapping does not have: with the section
  "Financials" holding the empty mapping, the list of the two commands
  \<^verbatim>\<open>{"section": "Financials.Revenue", "content": {"q1": 1}, "mode": "merge"}\<close> and
  \<^verbatim>\<open>{"section": "Notes", "content": "call back", "mode": "replace"}\<close> ends in KeyError
  at the first command, and the section "Notes" of the second one is never created.
\<close>

theorem apply_plan_update_merge_missing_key_aborts:
  "apply_plan_update plain_section
     (Some (demo_plan [\<lparr>title = ''Financials'', content = VDict []\<rparr>]))
     (VList [command ''Financials.Revenue'' (VDict [(''q1'', VInt 1)]) ''merge'',
             command ''Notes'' (VStr ''call back'') ''replace'']) =
   (Some ((demo_plan [\<lparr>title = ''Financials'', content = VDict []\<rparr>])
            \<lparr>history := [snapshot_of (demo_plan [\<lparr>title = ''Financials'', content = VDict []\<rparr>])]\<rparr>),
    Inl KeyError)"
  by (simp add: eval_defs)

text \<open>The second command alone does create its section.\<close>

lemma apply_plan_update_second_command_alone:
  "apply_plan_update plain_section
     (Some (demo_plan [\<lparr>title = ''Financials'', content = VDict []\<rparr>]))
     (VList [command ''Notes'' (VStr ''call back'') ''replace'']) =
   (Some ((demo_plan [\<lparr>title = ''Financials'', content = VDict []\<rparr>,
                      \<lparr>title = ''Notes'', content = VStr ''call back''\<rparr>])
            \<lparr>history := [snapshot_of (demo_plan [\<lparr>title = ''Financials'', content = VDict []\<rparr>])]\<rparr>),
    Inr True)"
  by (simp add: eval_defs)

subsection \<open>What the returned flag says\<close>

text \<open>A call that returns false has left the section sequence exactly as it was.\<close>

lemma apply_plan_update_false_keeps_sections:
  assumes "apply_plan_update ns (Some plan) u = (Some plan', Inr False)"
  shows "sections plan' = sections plan"
proof (cases "truthy u")
  case False
  then show ?thesis using assms by (simp add: apply_plan_update_def)
next
  case True
  define plan1 where "plan1 = plan\<lparr>history := history plan @ [snapshot_of plan]\<rparr>"
  define us where "us = (case u of VList us \<Rightarrow> us | _ \<Rightarrow> [u])"
  obtain p2 r2 where s: "apply_updates ns us plan1 False = (p2, r2)"
    by (cases "apply_updates ns us plan1 False")
  have "r2 = Inr False \<and> plan' = p2"
    using assms True s unfolding apply_plan_update_def plan1_def us_def
    by (auto simp: Let_def split: sum.splits if_splits)
  then have "p2 = plan1" "plan' = p2"
    using s apply_updates_False [of ns us plan1 False p2] by auto
  then show ?thesis by (simp add: plan1_def)
qed

text \<open>The sibling paths that do nothing do not report a change: the delete of a section
  that does not exist (lines 362-363) and the move of a section to the index it has
  (line 288).\<close>

lemma apply_plan_update_delete_missing_section:
  "apply_plan_update plain_section
     (Some (demo_plan [\<lparr>title = ''Notes'', content = VDict [(''Owner'', VStr ''Ann'')]\<rparr>]))
     (command ''Pricing'' VNone ''delete'') =
   (Some ((demo_plan [\<lparr>title = ''Notes'', content = VDict [(''Owner'', VStr ''Ann'')]\<rparr>])
            \<lparr>history := [snapshot_of
               (demo_plan [\<lparr>title = ''Notes'', content = VDict [(''Owner'', VStr ''Ann'')]\<rparr>])]\<rparr>),
    Inr False)"
  by (simp add: eval_defs)

lemma apply_plan_update_move_to_same_index:
  "apply_plan_update plain_section
     (Some (demo_plan [\<lparr>title = ''Notes'', content = VDict [(''Owner'', VStr ''Ann'')]\<rparr>]))
     (command ''Notes'' (VInt 0) ''move'') =
   (Some ((demo_plan [\<lparr>title = ''Notes'', content = VDict [(''Owner'', VStr ''Ann'')]\<rparr>])
            \<lparr>history := [snapshot_of
               (demo_plan [\<lparr>title = ''Notes'', content = VDict [(''Owner'', VStr ''Ann'')]\<rparr>])]\<rparr>),
    Inr False)"
  by (simp add: eval_defs)

text \<open>
  C3. The claim: the call returns true if and only if some section's content, position or
  existence changed; in particular a delete command whose target key is absent from the
  section's mapping leaves the sections unchanged and must not make the call report a
  change. The code reports one: with the section "Notes" holding the mapping
  \<^verbatim>\<open>{"Owner": "Ann"}\<close>, the command \<^verbatim>\<open>{"section": "Notes.Budget", "content": null,
  "mode": "delete"}\<close> deletes nothing, the sections are as they were, and the call
  returns \<^verbatim>\<open>True\<close>: line 278 sets \<^verbatim>\<open>any_changed\<close> after the test of line 274, not under
  it.
\<close>

theorem apply_plan_update_delete_absent_key_reports_change:
  "apply_plan_update plain_section
     (Some (demo_plan [\<lparr>title = ''Notes'', content = VDict [(''Owner'', VStr ''Ann'')]\<rparr>]))
     (command ''Notes.Budget'' VNone ''delete'') =
   (Some ((demo_plan [\<lparr>title = ''Notes'', content = VDict [(''Owner'', VStr ''Ann'')]\<rparr>])
            \<lparr>history := [snapshot_of
               (demo_plan [\<lparr>title = ''Notes'', content = VDict [(''Owner'', VStr ''Ann'')]\<rparr>])]\<rparr>),
    Inr True)
   \<and> sections ((demo_plan [\<lparr>title = ''Notes'', content = VDict [(''Owner'', VStr ''Ann'')]\<rparr>])
            \<lparr>history := [snapshot_of
               (demo_plan [\<lparr>title = ''Notes'', content = VDict [(''Owner'', VStr ''Ann'')]\<rparr>])]\<rparr>)
     = sections (demo_plan [\<lparr>title = ''Notes'', content = VDict [(''Owner'', VStr ''Ann'')]\<rparr>])"
  by (simp add: eval_defs)

text \<open>The same when the content of the section is not a mapping.\<close>

lemma apply_plan_update_delete_key_of_text_reports_change:
  "apply_plan_update plain_section
     (Some (demo_plan [\<lparr>title = ''Notes'', content = VStr ''call back''\<rparr>]))
     (command ''Notes.Budget'' VNone ''delete'') =
   (Some ((demo_plan [\<lparr>title = ''Notes'', content = VStr ''call back''\<rparr>])
            \<lparr>history := [snapshot_of
               (demo_plan [\<lparr>title = ''Notes'', content = VStr ''call back''\<rparr>])]\<rparr>),
    Inr True)"
  by (simp add: eval_defs)

subsection \<open>The snapshot\<close>

text \<open>
  C4, as stated: for every command or list of commands, the empty list too, the call
  appends one snapshot to the history. It fails on the empty list: line 190 returns
  before the snapshot is taken, and the plan is untouched.
\<close>

theorem apply_plan_update_empty_list_no_snapshot:
  "apply_plan_update plain_section (Some (demo_plan [])) (VList []) =
     (Some (demo_plan []), Inr False)
   \<and> history (demo_plan []) = []"
  by (simp add: apply_plan_update_def demo_plan_def new_account_plan_def)

text \<open>
  C4, amended: for every plan and every update command or list of commands that Python
  counts as true (a non-empty list, a non-empty mapping), the call appends exactly one
  snapshot of the plan's fields before the call, without its history, to the history:
  whether or not a command changes anything, and also when a command raises.
\<close>

theorem apply_plan_update_appends_one_snapshot:
  assumes "truthy u"
  shows "map_option history (fst (apply_plan_update ns (Some plan) u)) =
           Some (history plan @ [snapshot_of plan])"
proof -
  define plan1 where "plan1 = plan\<lparr>history := history plan @ [snapshot_of plan]\<rparr>"
  define us where "us = (case u of VList us \<Rightarrow> us | _ \<Rightarrow> [u])"
  obtain p2 r2 where s: "apply_updates ns us plan1 False = (p2, r2)"
    by (cases "apply_updates ns us plan1 False")
  have h: "history p2 = history plan @ [snapshot_of plan]"
    using apply_updates_history [of ns us plan1 False] s by (simp add: plan1_def)
  show ?thesis
    using assms s [unfolded plan1_def us_def] h
    by (cases r2) (simp_all add: apply_plan_update_def Let_def)
qed

theorem apply_plan_update_appends_one_snapshot_witness:
  "truthy (command ''Pricing'' VNone ''delete'')
   \<and> map_option history
       (fst (apply_plan_update plain_section
              (Some (demo_plan [\<lparr>title = ''Notes'', content = VStr ''call back''\<rparr>]))
              (command ''Pricing'' VNone ''delete''))) =
     Some (history (demo_plan [\<lparr>title = ''Notes'', content = VStr ''call back''\<rparr>])
           @ [snapshot_of (demo_plan [\<lparr>title = ''Notes'', content = VStr ''call back''\<rparr>])])"
proof -
  have t: "truthy (command ''Pricing'' VNone ''delete'')"
    by (simp add: command_def)
  show ?thesis
    by (rule conjI [OF t apply_plan_update_appends_one_snapshot [OF t]])
qed

subsection \<open>The section "Research Sources"\<close>

lemma move_research_sources_last_ends:
  assumes "i < length (move_research_sources_last secs)"
      and "is_research_sources (move_research_sources_last secs ! i)"
  shows "is_research_sources (last (move_research_sources_last secs))"
proof (cases "find_first is_research_sources secs")
  case None
  then have "move_research_sources_last secs = secs"
    by (simp add: move_research_sources_last_def)
  then have "secs ! i \<in> set secs" "is_research_sources (secs ! i)"
    using assms by simp_all
  then show ?thesis using find_first_None [OF None] by blast
next
  case (Some k)
  then have k: "k < length secs" "is_research_sources (secs ! k)"
    using find_first_Some [OF Some] by simp_all
  show ?thesis
  proof (cases "int k < int (length secs) - 1")
    case True
    then show ?thesis using Some k by (simp add: move_research_sources_last_def)
  next
    case False
    then have "k = length secs - 1" using k by linarith
    moreover have "secs \<noteq> []" using k by auto
    ultimately have "last secs = secs ! k" by (simp add: last_conv_nth)
    then show ?thesis using Some False k by (simp add: move_research_sources_last_def)
  qed
qed

text \<open>
  C7, as stated: after every call that reports a change, a section whose title equals
  "Research Sources" case-insensitively is the last element of the section sequence. It
  fails for a plan that holds two such sections: only the first one found is moved to the
  end (lines 383-386 stop at the first match), and the other one stays where it was, here
  at the front.
\<close>

theorem apply_plan_update_second_research_sources_not_last:
  "apply_plan_update plain_section
     (Some (demo_plan [\<lparr>title = ''Research Sources'', content = VList []\<rparr>,
                       \<lparr>title = ''research sources'', content = VList []\<rparr>]))
     (command ''Notes'' (VStr ''call back'') ''replace'') =
   (Some ((demo_plan [\<lparr>title = ''research sources'', content = VList []\<rparr>,
                      \<lparr>title = ''Notes'', content = VStr ''call back''\<rparr>,
                      \<lparr>title = ''Research Sources'', content = VList []\<rparr>])
            \<lparr>history := [snapshot_of (demo_plan [\<lparr>title = ''Research Sources'', content = VList []\<rparr>,
                       \<lparr>title = ''research sources'', content = VList []\<rparr>])]\<rparr>),
    Inr True)
   \<and> is_research_sources \<lparr>title = ''research sources'', content = VList []\<rparr>"
  by (simp add: eval_defs)

text \<open>
  C7, amended: after every call that reports a change, if a section whose title equals
  "Research Sources" case-insensitively exists in the plan, then the last element of the
  section sequence is such a section; and when the plan holds only one such section, that
  section is the last element.
\<close>

theorem apply_plan_update_research_sources_last:
  assumes "apply_plan_update ns (Some plan) u = (Some plan', Inr True)"
      and "i < length (sections plan')"
      and "is_research_sources (sections plan' ! i)"
  shows "is_research_sources (last (sections plan'))
         \<and> ((\<forall>j < length (sections plan'). is_research_sources (sections plan' ! j) \<longrightarrow> j = i)
              \<longrightarrow> i = length (sections plan') - 1)"
proof -
  have t: "truthy u" using assms(1) by (auto simp: apply_plan_update_def split: if_splits)
  define plan1 where "plan1 = plan\<lparr>history := history plan @ [snapshot_of plan]\<rparr>"
  define us where "us = (case u of VList us \<Rightarrow> us | _ \<Rightarrow> [u])"
  obtain p2 r2 where s: "apply_updates ns us plan1 False = (p2, r2)"
    by (cases "apply_updates ns us plan1 False")
  have "plan' = p2\<lparr>sections := move_research_sources_last (sections p2)\<rparr>"
    using assms(1) t s [unfolded plan1_def us_def]
    by (cases r2) (auto simp: apply_plan_update_def Let_def split: if_splits)
  then have secs: "sections plan' = move_research_sources_last (sections p2)" by simp
  have l: "is_research_sources (last (sections plan'))"
    using move_research_sources_last_ends [of i "sections p2"] assms(2,3) secs by simp
  have ne: "sections plan' \<noteq> []" using assms(2) by auto
  have "is_research_sources (sections plan' ! (length (sections plan') - 1))"
    using l ne by (simp add: last_conv_nth)
  moreover have "length (sections plan') - 1 < length (sections plan')" using ne by simp
  ultimately show ?thesis using l by blast
qed

theorem apply_plan_update_research_sources_last_witness:
  "apply_plan_update plain_section
     (Some (demo_plan [\<lparr>title = ''Research Sources'', content = VList []\<rparr>,
                       \<lparr>title = ''Overview'', content = VStr ''text''\<rparr>]))
     (command ''Notes'' (VStr ''call back'') ''replace'') =
   (Some ((demo_plan [\<lparr>title = ''Overview'', content = VStr ''text''\<rparr>,
                      \<lparr>title = ''Notes'', content = VStr ''call back''\<rparr>,
                      \<lparr>title = ''Research Sources'', content = VList []\<rparr>])
            \<lparr>history := [snapshot_of (demo_plan [\<lparr>title = ''Research Sources'', content = VList []\<rparr>,
                       \<lparr>title = ''Overview'', content = VStr ''text''\<rparr>])]\<rparr>),
    Inr True)
   \<and> is_research_sources (last [\<lparr>title = ''Overview'', content = VStr ''text''\<rparr>,
                      \<lparr>title = ''Notes'', content = VStr ''call back''\<rparr>,
                      \<lparr>title = ''Research Sources'', content = VList []\<rparr>])
   \<and> (2::nat) = length [\<lparr>title = ''Overview'', content = VStr ''text''\<rparr>,
                      \<lparr>title = ''Notes'', content = VStr ''call back''\<rparr>,
                      \<lparr>title = ''Research Sources'', content = VList []\<rparr>] - 1"
proof -
  let ?secs = "[\<lparr>title = ''Overview'', content = VStr ''text''\<rparr>,
                \<lparr>title = ''Notes'', content = VStr ''call back''\<rparr>,
                \<lparr>title = ''Research Sources'', content = VList []\<rparr>]"
  let ?plan' = "(demo_plan ?secs)
            \<lparr>history := [snapshot_of (demo_plan [\<lparr>title = ''Research Sources'', content = VList []\<rparr>,
                       \<lparr>title = ''Overview'', content = VStr ''text''\<rparr>])]\<rparr>"
  have e: "apply_plan_update plain_section
     (Some (demo_plan [\<lparr>title = ''Research Sources'', content = VList []\<rparr>,
                       \<lparr>title = ''Overview'', content = VStr ''text''\<rparr>]))
     (command ''Notes'' (VStr ''call back'') ''replace'') = (Some ?plan', Inr True)"
    by (simp add: eval_defs)
  have secs: "sections ?plan' = ?secs"
    by (simp add: demo_plan_def)
  have i: "2 < length (sections ?plan')"
    by (simp add: secs)
  have rs: "is_research_sources (sections ?plan' ! 2)"
    by (simp add: secs is_research_sources_def str_lower_def lower_char_def
        lower_ascii_def upper_letters_def lower_letters_def upper_latin1_def lower_latin1_def)
  have only: "\<forall>j < length (sections ?plan'). is_research_sources (sections ?plan' ! j) \<longrightarrow> j = 2"
    by (simp add: secs is_research_sources_def str_lower_def lower_char_def
        lower_ascii_def upper_letters_def lower_letters_def upper_latin1_def lower_latin1_def
        less_Suc_eq nth_Cons')
  have "is_research_sources (last (sections ?plan'))
        \<and> (2::nat) = length (sections ?plan') - 1"
    using apply_plan_update_research_sources_last [OF e i rs] only by blast
  then show ?thesis using e secs by simp
qed

subsection \<open>Moving a section to a negative index\<close>

lemma resolve_target_key_not_given:
  "\<not> key_given tk \<Longrightarrow> resolve_target_key tk c = tk"
  by (cases tk; cases c) (simp_all add: resolve_target_key_def)

lemma move_research_sources_last_hd:
  assumes "\<not> is_research_sources s"
  shows "move_research_sources_last (s # rest) \<noteq> []
         \<and> hd (move_research_sources_last (s # rest)) = s"
proof (cases "find_first is_research_sources (s # rest)")
  case None
  then show ?thesis by (simp add: move_research_sources_last_def)
next
  case (Some k)
  then obtain k' where k: "k = Suc k'" using assms by (auto split: if_splits)
  show ?thesis using Some k by (simp add: move_research_sources_last_def pop_at_def)
qed

text \<open>
  C9, as stated: every move-mode command on an existing section whose content coerces to
  a negative integer moves the section to the first position. It fails for the section
  "Research Sources": the command moves it to the front and sets \<^verbatim>\<open>any_changed\<close>, and
  lines 380-391 then move it back to the end before the call returns.
\<close>

theorem apply_plan_update_move_research_sources_stays_last:
  "apply_plan_update plain_section
     (Some (demo_plan [\<lparr>title = ''Overview'', content = VStr ''text''\<rparr>,
                       \<lparr>title = ''Research Sources'', content = VList []\<rparr>]))
     (command ''Research Sources'' (VInt (-1)) ''move'') =
   (Some ((demo_plan [\<lparr>title = ''Overview'', content = VStr ''text''\<rparr>,
                       \<lparr>title = ''Research Sources'', content = VList []\<rparr>])
            \<lparr>history := [snapshot_of (demo_plan [\<lparr>title = ''Overview'', content = VStr ''text''\<rparr>,
                       \<lparr>title = ''Research Sources'', content = VList []\<rparr>])]\<rparr>),
    Inr True)
  \<and> existing_index ''Research Sources'' [\<lparr>title = ''Overview'', content = VStr ''text''\<rparr>,
                       \<lparr>title = ''Research Sources'', content = VList []\<rparr>] = Some 1
  \<and> py_int (VInt (-1)) = Inr (-1)"
  by (simp add: eval_defs)

text \<open>A move-mode command whose path has a sub-key is ignored (line 282).\<close>

lemma apply_plan_update_move_with_key_ignored:
  "apply_plan_update plain_section
     (Some (demo_plan [\<lparr>title = ''Overview'', content = VStr ''text''\<rparr>,
                       \<lparr>title = ''Pricing'', content = VDict [(''Tier'', VStr ''gold'')]\<rparr>]))
     (command ''Pricing.Tier'' (VInt (-1)) ''move'') =
   (Some ((demo_plan [\<lparr>title = ''Overview'', content = VStr ''text''\<rparr>,
                       \<lparr>title = ''Pricing'', content = VDict [(''Tier'', VStr ''gold'')]\<rparr>])
            \<lparr>history := [snapshot_of (demo_plan [\<lparr>title = ''Overview'', content = VStr ''text''\<rparr>,
                       \<lparr>title = ''Pricing'', content = VDict [(''Tier'', VStr ''gold'')]\<rparr>])]\<rparr>),
    Inr False)"
  by (simp add: eval_defs)

text \<open>
  C9, amended: for every move-mode command whose path, an ASCII text, names an existing
  section and no sub-key, and whose content coerces to a negative integer, the command is
  not rejected: the index is clamped to 0 and the command leaves the section at the first
  position of the section sequence, counting as a change unless the section was the
  first one already. When the command is the only one of the call and the section is not
  titled "Research Sources", the section is the first element of the sequence after the
  call.
\<close>

theorem apply_plan_update_move_negative_index:
  assumes path: "dict_get item ''section'' VNone = VStr path" "path \<noteq> []"
      and ascii: "ascii_text path"
      and mode: "dict_get item ''mode'' (VStr ''replace'') = VStr ''move''"
      and nokey: "\<not> key_given (target_key_of (str_split CHR ''.'' path))"
      and found: "existing_index path (sections plan) = Some i"
      and neg: "py_int (unwrap_content (dict_get item ''content'' VNone)) = Inr n" "n < 0"
  shows "apply_update_item ns (VDict item) plan =
           (plan\<lparr>sections := sections plan ! i # pop_at i (sections plan)\<rparr>, Inr (i \<noteq> 0))
         \<and> (\<not> is_research_sources (sections plan ! i) \<longrightarrow>
              (\<exists>plan'. apply_plan_update ns (Some plan) (VDict item) = (Some plan', Inr (i \<noteq> 0))
                 \<and> sections plan' \<noteq> [] \<and> hd (sections plan') = sections plan ! i))"
proof -
  have ne: "item \<noteq> []" using path(1) by (auto simp: dict_get_def)
  have i: "i < length (sections plan)"
    using found find_first_Some [of _ "sections plan" i]
    by (simp add: existing_index_def find_existing_def Let_def)
  have same: "\<And>xs :: PlanSection list. xs \<noteq> [] \<Longrightarrow> xs ! 0 # pop_at 0 xs = xs"
    by (case_tac xs) (simp_all add: pop_at_def)
  have mv: "\<And>secs. move_section i (target_key_of (str_split CHR ''.'' path))
              (unwrap_content (dict_get item ''content'' VNone)) secs =
            (if i \<noteq> 0 then (secs ! i # pop_at i secs, Inr True) else (secs, Inr False))"
    using nokey neg by (simp add: move_section_def insert_at_def Let_def)
  have item: "\<And>q. sections q = sections plan \<Longrightarrow> apply_update_item ns (VDict item) q =
        (if i \<noteq> 0
         then (q\<lparr>sections := sections plan ! i # pop_at i (sections plan)\<rparr>, Inr True)
         else (q, Inr False))"
    using path mode found nokey mv
    by (simp add: apply_update_item_def update_existing_def existing_index_def Let_def
        resolve_target_key_not_given)
  have step: "apply_update_item ns (VDict item) plan =
           (plan\<lparr>sections := sections plan ! i # pop_at i (sections plan)\<rparr>, Inr (i \<noteq> 0))"
  proof (cases "i = 0")
    case True
    have "sections plan \<noteq> []" using i by auto
    then show ?thesis using True item [of plan] same [of "sections plan"] by simp
  next
    case False
    then show ?thesis using item [of plan] by simp
  qed
  have call: "\<exists>plan'. apply_plan_update ns (Some plan) (VDict item) = (Some plan', Inr (i \<noteq> 0))
                 \<and> sections plan' \<noteq> [] \<and> hd (sections plan') = sections plan ! i"
    if notrs: "\<not> is_research_sources (sections plan ! i)"
  proof -
    define plan1 where "plan1 = plan\<lparr>history := history plan @ [snapshot_of plan]\<rparr>"
    have s1: "sections plan1 = sections plan" by (simp add: plan1_def)
    show ?thesis
    proof (cases "i = 0")
      case True
      then have "apply_plan_update ns (Some plan) (VDict item) = (Some plan1, Inr False)"
        using ne item [OF s1] by (simp add: apply_plan_update_def Let_def plan1_def)
      moreover have "sections plan1 \<noteq> [] \<and> hd (sections plan1) = sections plan ! i"
        using True i by (cases "sections plan") (simp_all add: plan1_def)
      ultimately show ?thesis using True by simp
    next
      case False
      let ?secs = "move_research_sources_last (sections plan ! i # pop_at i (sections plan))"
      have "apply_plan_update ns (Some plan) (VDict item) =
              (Some (plan1\<lparr>sections := ?secs\<rparr>), Inr True)"
        using False ne item [OF s1] by (simp add: apply_plan_update_def Let_def plan1_def)
      moreover have "?secs \<noteq> [] \<and> hd ?secs = sections plan ! i"
        using move_research_sources_last_hd [OF notrs] by simp
      ultimately show ?thesis using False by simp
    qed
  qed
  show ?thesis using step call by blast
qed

theorem apply_plan_update_move_negative_index_witness:
  "existing_index ''Notes''
     (sections (demo_plan [\<lparr>title = ''Overview'', content = VStr ''text''\<rparr>,
                           \<lparr>title = ''Notes'', content = VStr ''call back''\<rparr>])) = Some 1
   \<and> ascii_text ''Notes''
   \<and> py_int (VStr ''-3'') = Inr (-3)
   \<and> snd (apply_update_item plain_section
            (VDict [(''section'', VStr ''Notes''), (''content'', VStr ''-3''),
                    (''mode'', VStr ''move'')])
            (demo_plan [\<lparr>title = ''Overview'', content = VStr ''text''\<rparr>,
                        \<lparr>title = ''Notes'', content = VStr ''call back''\<rparr>])) = Inr True
   \<and> (\<exists>plan'. apply_plan_update plain_section
         (Some (demo_plan [\<lparr>title = ''Overview'', content = VStr ''text''\<rparr>,
                           \<lparr>title = ''Notes'', content = VStr ''call back''\<rparr>]))
         (VDict [(''section'', VStr ''Notes''), (''content'', VStr ''-3''),
                 (''mode'', VStr ''move'')]) = (Some plan', Inr True)
       \<and> sections plan' \<noteq> []
       \<and> hd (sections plan') = \<lparr>title = ''Notes'', content = VStr ''call back''\<rparr>)"
proof -
  let ?item = "[(''section'', VStr ''Notes''), (''content'', VStr ''-3''),
                (''mode'', VStr ''move'')]"
  let ?plan = "demo_plan [\<lparr>title = ''Overview'', content = VStr ''text''\<rparr>,
                          \<lparr>title = ''Notes'', content = VStr ''call back''\<rparr>]"
  have path: "dict_get ?item ''section'' VNone = VStr ''Notes''" "''Notes'' \<noteq> []"
    by (simp_all add: dict_get_def)
  have ascii: "ascii_text ''Notes''"
    by (simp add: ascii_text_def)
  have mode: "dict_get ?item ''mode'' (VStr ''replace'') = VStr ''move''"
    by (simp add: dict_get_def)
  have nokey: "\<not> key_given (target_key_of (str_split CHR ''.'' ''Notes''))"
    by (simp add: target_key_of_def)
  have found: "existing_index ''Notes'' (sections ?plan) = Some 1"
    by (simp add: eval_defs)
  have int3: "py_int (VStr ''-3'') = Inr (-3)"
    by (simp add: parse_int_def int_strip_def is_int_space_def digit_val_def
        max_str_digits_def)
  have neg: "py_int (unwrap_content (dict_get ?item ''content'' VNone)) = Inr (-3)"
       "(-3::int) < 0"
    using int3 by (simp_all add: dict_get_def unwrap_content_def)
  have notrs: "\<not> is_research_sources (sections ?plan ! 1)"
    by (simp add: eval_defs)
  have sec: "sections ?plan ! 1 = \<lparr>title = ''Notes'', content = VStr ''call back''\<rparr>"
    by (simp add: demo_plan_def)
  show ?thesis
    using apply_plan_update_move_negative_index
            [OF path ascii mode nokey found neg, of plain_section]
          found ascii int3 sec notrs
    by simp
qed

subsection \<open>A command without a section path\<close>

lemma apply_update_item_skip:
  assumes "\<not> truthy (dict_get item ''section'' VNone)"
  shows "apply_update_item ns (VDict item) plan = (plan, Inr False)"
  using assms by (simp add: apply_update_item_def Let_def)

lemma apply_updates_skip:
  assumes "\<not> truthy (dict_get item ''section'' VNone)"
  shows "apply_updates ns (before @ VDict item # after) plan ch =
           apply_updates ns (before @ after) plan ch"
proof (induction before arbitrary: plan ch)
  case Nil
  then show ?case using assms by (simp add: apply_update_item_skip)
next
  case (Cons u us)
  show ?case
  proof (cases "apply_update_item ns u plan")
    case (Pair p1 r1)
    then show ?thesis using Cons.IH by (cases r1) simp_all
  qed
qed

text \<open>
  C10, as stated: for every update command whose section path is missing or empty, the
  command is skipped after the snapshot of the call has been appended. It fails for the
  command that is the empty mapping, passed alone: its section path is missing, and
  line 190 returns before the snapshot is taken, so nothing is appended.
\<close>

theorem apply_plan_update_empty_command_no_snapshot:
  "\<not> truthy (dict_get [] ''section'' VNone)
   \<and> apply_plan_update plain_section
       (Some (demo_plan [\<lparr>title = ''Notes'', content = VStr ''call back''\<rparr>])) (VDict []) =
     (Some (demo_plan [\<lparr>title = ''Notes'', content = VStr ''call back''\<rparr>]), Inr False)
   \<and> history (demo_plan [\<lparr>title = ''Notes'', content = VStr ''call back''\<rparr>]) = []"
  by (simp add: apply_plan_update_def dict_get_def demo_plan_def new_account_plan_def)

text \<open>
  C10, amended: an update command whose section path is missing or empty (any value that
  Python counts as false) and that reaches the loop, that is any such command in a list,
  or a single command that is a non-empty mapping, is skipped after the snapshot has
  been appended: wherever it stands in the list, the loop goes on as if it were not there,
  so it changes no section and does not count as a change; alone, it leaves the plan with
  the snapshot appended to the history and nothing else changed, and the call returns
  \<^verbatim>\<open>False\<close>.
\<close>

theorem apply_plan_update_skips_command_without_section:
  assumes "\<not> truthy (dict_get item ''section'' VNone)"
  shows "apply_updates ns (before @ VDict item # after) plan ch =
           apply_updates ns (before @ after) plan ch
       \<and> apply_plan_update ns (Some plan) (VList [VDict item]) =
           (Some (plan\<lparr>history := history plan @ [snapshot_of plan]\<rparr>), Inr False)
       \<and> (item \<noteq> [] \<longrightarrow> apply_plan_update ns (Some plan) (VDict item) =
           (Some (plan\<lparr>history := history plan @ [snapshot_of plan]\<rparr>), Inr False))"
  using assms apply_updates_skip [OF assms]
  by (simp add: apply_plan_update_def apply_update_item_skip Let_def)

theorem apply_plan_update_skips_command_without_section_witness:
  "\<not> truthy (dict_get [(''content'', VStr ''lost''), (''mode'', VStr ''replace'')] ''section'' VNone)
   \<and> apply_plan_update plain_section
       (Some (demo_plan [\<lparr>title = ''Notes'', content = VStr ''call back''\<rparr>]))
       (VList [VDict [(''content'', VStr ''lost''), (''mode'', VStr ''replace'')]]) =
     (Some ((demo_plan [\<lparr>title = ''Notes'', content = VStr ''call back''\<rparr>])
        \<lparr>history := history (demo_plan [\<lparr>title = ''Notes'', content = VStr ''call back''\<rparr>])
           @ [snapshot_of (demo_plan [\<lparr>title = ''Notes'', content = VStr ''call back''\<rparr>])]\<rparr>),
      Inr False)
   \<and> apply_plan_update plain_section
       (Some (demo_plan [\<lparr>title = ''Notes'', content = VStr ''call back''\<rparr>]))
       (VDict [(''content'', VStr ''lost''), (''mode'', VStr ''replace'')]) =
     (Some ((demo_plan [\<lparr>title = ''Notes'', content = VStr ''call back''\<rparr>])
        \<lparr>history := history (demo_plan [\<lparr>title = ''Notes'', content = VStr ''call back''\<rparr>])
           @ [snapshot_of (demo_plan [\<lparr>title = ''Notes'', content = VStr ''call back''\<rparr>])]\<rparr>),
      Inr False)"
proof -
  let ?item = "[(''content'', VStr ''lost''), (''mode'', VStr ''replace'')]"
  have h: "\<not> truthy (dict_get ?item ''section'' VNone)"
    by (simp add: dict_get_def)
  have ne: "?item \<noteq> []" by simp
  show ?thesis
    using h ne
      apply_plan_update_skips_command_without_section
        [OF h, of plain_section "[]" "[]"
           "demo_plan [\<lparr>title = ''Notes'', content = VStr ''call back''\<rparr>]" False]
    by blast
qed

section \<open>Properties of the parser and of the conversation node\<close>

lemmas agent_defs = conversation_agent_def respond_def build_llm_messages_def
  complete_and_parse_def parse_json_output_def json_block_def inject_sources_def
  interpret_output_def update_plan_of_directive_def handle_research_action_def raw_reply_def
  implicit_update_def rag_context_of_def demo_env_def demo_loads_def demo_state_def
  execute_plan_text_def call_research_text_def inner_reply_text_def nested_reply_text_def
  malformed_llm_def repaired_llm_def turn_llm_def demo_research_def run_turn_def
  str_rfind_def str_slice_def get_clean_content_def extract_reply_def reply_of_def
  unparsable_def

subsection \<open>The one retry\<close>



lemma complete_and_parse_calls:
  "length (fst (complete_and_parse e req)) \<le> 2"
  by (simp add: complete_and_parse_def Let_def split: sum.splits)

text \<open>The block for the sources returns, whatever the plan is, when the session holds no
  research result or one whose sources are absent or a list of mappings.\<close>

lemma source_entries_of_dicts:
  "list_all is_dict xs \<Longrightarrow> \<exists>ys. source_entries xs = Inr ys"
proof (induction xs)
  case Nil
  then show ?case by simp
next
  case (Cons x xs)
  then obtain ys where "source_entries xs = Inr ys" by auto
  moreover obtain d where "x = VDict d" using Cons.prems by (cases x) simp_all
  ultimately show ?case by (simp add: source_entry_def)
qed

lemma inject_sources_returns:
  assumes "case rr_opt of
             None \<Rightarrow> True
           | Some rr \<Rightarrow> (case dict_get rr ''sources'' (VList []) of
                          VList xs \<Rightarrow> list_all is_dict xs
                        | _ \<Rightarrow> False)"
  shows "\<exists>p rr'. inject_sources e plan_opt rr_opt = Inr (p, rr')"
proof (cases rr_opt)
  case None
  then show ?thesis by (simp add: inject_sources_def)
next
  case (Some rr)
  then obtain xs where xs: "dict_get rr ''sources'' (VList []) = VList xs" "list_all is_dict xs"
    using assms by (auto split: pyval.splits)
  obtain ys where "source_entries xs = Inr ys" using source_entries_of_dicts [OF xs(2)] by auto
  then show ?thesis using Some xs
    by (simp add: inject_sources_def sources_content_of_def Let_def)
qed

text \<open>Whatever the completion service answers, and whether the node returns or raises, one
  run of the node sends at most two requests to it.\<close>

lemma conversation_agent_at_most_two_calls:
  "length (fst (conversation_agent e st)) \<le> 2"
proof (cases "messages st = []")
  case True
  then show ?thesis by (simp add: conversation_agent_def)
next
  case False
  show ?thesis
  proof (cases "build_llm_messages e st")
    case (Inl err)
    then show ?thesis using False by (simp add: conversation_agent_def)
  next
    case (Inr req)
    obtain calls r where c: "complete_and_parse e req = (calls, r)"
      by (cases "complete_and_parse e req")
    have l: "length calls \<le> 2" using complete_and_parse_calls [of e req] c by simp
    have "fst (conversation_agent e st) = calls"
      using False Inr c
      by (simp add: conversation_agent_def Let_def split: sum.splits prod.splits)
    then show ?thesis using l by simp
  qed
qed

text \<open>When \<^verbatim>\<open>json.loads\<close> raises something else than JSONDecodeError on the whole text of
  the first output, line 174 does not catch it: the node raises after its one request,
  and there is no retry. So it is for an output of 5000 digits.\<close>

lemma conversation_agent_raises_without_retry:
  assumes "messages st \<noteq> []"
      and "build_llm_messages e st = Inr req"
      and "conversation_llm e req = Inr c1"
      and "json_loads e c1 = Inl err" and "err \<noteq> JSONDecodeError"
  shows "conversation_agent e st = ([req], Inl err)"
  using assms
  by (simp add: conversation_agent_def complete_and_parse_def parse_json_output_def)

lemma demo_loads_many_digits:
  "demo_loads (replicate 5000 CHR ''1'') = Inl ValueError"
proof -
  let ?t = "replicate 5000 CHR ''1''"
  have len: "length ?t = 5000" by (simp)
  have "length execute_plan_text \<noteq> 5000" "length call_research_text \<noteq> 5000"
       "length nested_reply_text \<noteq> 5000" "length inner_reply_text \<noteq> 5000"
    by (simp_all add: execute_plan_text_def call_research_text_def nested_reply_text_def
        inner_reply_text_def)
  then have ne: "?t \<noteq> execute_plan_text" "?t \<noteq> call_research_text"
                "?t \<noteq> nested_reply_text" "?t \<noteq> inner_reply_text"
    using len by metis+
  have ones: "list_all (\<lambda>c. c = CHR ''1'') ?t"
    by (simp add: list_all_iff)
  show ?thesis
    unfolding demo_loads_def using ne ones len by (simp)
qed

lemma conversation_agent_many_digits_no_retry:
  "conversation_agent (demo_env (\<lambda>msgs. Inr (replicate 5000 CHR ''1''))) (demo_state 0) =
     ([[SystemMessage ''FORMAT CONTRACT'', SystemMessage ''Current plan & research (JSON): {}'',
        HumanMessage ''Go ahead'']],
      Inl ValueError)"
proof -
  let ?e = "demo_env (\<lambda>msgs. Inr (replicate 5000 CHR ''1''))"
  have m: "messages (demo_state 0) \<noteq> []" by (simp add: demo_state_def)
  have req: "build_llm_messages ?e (demo_state 0) =
               Inr [SystemMessage ''FORMAT CONTRACT'',
                    SystemMessage ''Current plan & research (JSON): {}'',
                    HumanMessage ''Go ahead'']"
    by (simp add: build_llm_messages_def rag_context_of_def demo_env_def demo_state_def Let_def)
  have llm: "conversation_llm ?e [SystemMessage ''FORMAT CONTRACT'',
                    SystemMessage ''Current plan & research (JSON): {}'',
                    HumanMessage ''Go ahead''] = Inr (replicate 5000 CHR ''1'')"
    by (simp add: demo_env_def)
  have l: "json_loads ?e (replicate 5000 CHR ''1'') = Inl ValueError"
    using demo_loads_many_digits by (simp add: demo_env_def)
  show ?thesis
    by (rule conversation_agent_raises_without_retry [OF m req llm l]) simp
qed




subsection \<open>The action \<^verbatim>\<open>EXECUTE_PLAN\<close>\<close>

text \<open>In the pause branch the research mode is not assigned.\<close>

lemma handle_research_action_pause_keeps_mode:
  assumes "action d = VStr ''EXECUTE_PLAN''" and "steps_in_current_turn st = Some n" and "1 \<le> n"
  shows "research_mode (handle_research_action d st) = research_mode st
         \<and> research_plan_approved (handle_research_action d st) = Some True"
  using assms by (simp add: handle_research_action_def)

lemma handle_research_action_first_step_sets_mode:
  assumes "action d = VStr ''EXECUTE_PLAN''" and "steps_in_current_turn st = Some 0"
  shows "research_mode (handle_research_action d st) = Some ''multi''
         \<and> research_plan_approved (handle_research_action d st) = Some True"
  using assms by (simp add: handle_research_action_def)

text \<open>
  C6. The claim: the action \<^verbatim>\<open>EXECUTE_PLAN\<close> sets \<^verbatim>\<open>research_mode\<close> to \<^verbatim>\<open>"multi"\<close> and
  \<^verbatim>\<open>research_plan_approved\<close> to true in both branches. In the pause branch the code sets
  the approval only: a session whose mode is \<^verbatim>\<open>"single"\<close> and in which one step has run
  in this turn keeps the mode \<^verbatim>\<open>"single"\<close> when the completion service answers
  \<^verbatim>\<open>{"reply": "", "control": {"action": "EXECUTE_PLAN"}}\<close>.
\<close>

theorem conversation_agent_execute_plan_pause_keeps_single_mode:
  "snd (conversation_agent (demo_env (\<lambda>msgs. Inr execute_plan_text)) (demo_state 1)) =
     Inr ((demo_state 1)
            \<lparr> messages := [HumanMessage ''Go ahead'', AIMessage execute_plan_text],
              last_action := Some (VStr ''EXECUTE_PLAN''),
              research_needed := Some False, continue_after_pause := Some True,
              research_plan_approved := Some True \<rparr>)
   \<and> research_mode
        ((demo_state 1)
            \<lparr> messages := [HumanMessage ''Go ahead'', AIMessage execute_plan_text],
              last_action := Some (VStr ''EXECUTE_PLAN''),
              research_needed := Some False, continue_after_pause := Some True,
              research_plan_approved := Some True \<rparr>) = Some ''single''"
  by (simp add: agent_defs eval_defs)

subsection \<open>The reply extraction\<close>

text \<open>
  C8, as stated: \<^verbatim>\<open>get_clean_content\<close> applied to its own output returns that output. It
  fails when the reply field holds a text that is again a JSON object with a reply field:
  from \<open>nested_reply_text\<close> the function extracts \<open>inner_reply_text\<close>, and from that it
  extracts \<open>hi\<close>.
\<close>

theorem get_clean_content_not_idempotent:
  "get_clean_content demo_loads (VStr nested_reply_text) = VStr inner_reply_text
   \<and> get_clean_content demo_loads (get_clean_content demo_loads (VStr nested_reply_text))
       = VStr ''hi''
   \<and> VStr ''hi'' \<noteq> VStr inner_reply_text"
  by (simp add: get_clean_content_def extract_reply_def reply_of_def demo_loads_def
      nested_reply_text_def inner_reply_text_def execute_plan_text_def
      call_research_text_def)

text \<open>
  C8, amended: \<^verbatim>\<open>get_clean_content\<close> applied to its own output returns that output
  whenever the output is not a text in which one of the two attempts finds a JSON object
  with a reply field; so on every input that it returns unchanged, and on every input
  whose reply field is not a string.
\<close>

theorem get_clean_content_idempotent_on_plain_reply:
  assumes "case get_clean_content loads m of
             VStr t \<Rightarrow> extract_reply loads t = None
           | _ \<Rightarrow> True"
  shows "get_clean_content loads (get_clean_content loads m) = get_clean_content loads m"
  using assms by (cases "get_clean_content loads m") (simp_all add: get_clean_content_def)

theorem get_clean_content_idempotent_on_plain_reply_witness:
  "get_clean_content demo_loads (VStr inner_reply_text) = VStr ''hi''
   \<and> extract_reply demo_loads ''hi'' = None
   \<and> get_clean_content demo_loads (get_clean_content demo_loads (VStr inner_reply_text))
       = get_clean_content demo_loads (VStr inner_reply_text)"
proof -
  have g: "get_clean_content demo_loads (VStr inner_reply_text) = VStr ''hi''"
    by (simp add: get_clean_content_def extract_reply_def reply_of_def demo_loads_def
      nested_reply_text_def inner_reply_text_def execute_plan_text_def
      call_research_text_def)
  have x: "extract_reply demo_loads ''hi'' = None"
    by (simp add: extract_reply_def demo_loads_def json_block_def
      nested_reply_text_def inner_reply_text_def execute_plan_text_def
      call_research_text_def)
  have h: "case get_clean_content demo_loads (VStr inner_reply_text) of
             VStr t \<Rightarrow> extract_reply demo_loads t = None | _ \<Rightarrow> True"
    using g x by simp
  show ?thesis
    using g x get_clean_content_idempotent_on_plain_reply [OF h] by simp
qed

end
